theory Spec2Isabelle
  imports Main "HOL-Library.Sublist"
begin

section \<open>The question-answering pipeline of main.py\<close>

text \<open>
  The program asks for a question and a mail address, sends the question twice to a
  language model (once for its intention, once for the answer), renders the answer into
  a PDF file, mails that file and removes it. The four steps are the nodes of a LangGraph
  \<open>StateGraph\<close> joined by unconditional edges.

  Python strings are lists of characters; every literal of the program lies in Latin-1,
  so a character with an accent is one \<open>char\<close> (\<open>CHR 0xF3\<close> is the o with acute accent,
  \<open>CHR 0xE1\<close> the a with acute accent, \<open>CHR 0x27\<close> the apostrophe, \<open>CHR 0x0A\<close> the newline).
\<close>

subsection \<open>Exceptions and truthiness\<close>

datatype exn =
    KeyError string
  | TypeError string
  | ValueError string
  | EOFError string
  | FileNotFoundError string

text \<open>Python's truth value of an optional string: \<open>None\<close> and \<open>""\<close> are false.\<close>

fun truthy :: "string option \<Rightarrow> bool" where
  "truthy None = False"
| "truthy (Some s) = (s \<noteq> [])"

subsection \<open>The state of the graph\<close>

text \<open>
  \<open>AppState\<close> is a \<open>TypedDict\<close>: a dictionary in which any of the five keys may be
  missing, so each field is optional. A node returns such a dictionary holding only the
  keys it sets.
\<close>

record AppState =
  question :: "string option"
  email :: "string option"
  intention :: "string option"
  answer :: "string option"
  error :: "string option"

definition empty_state :: AppState where
  "empty_state = \<lparr>question = None, email = None, intention = None, answer = None, error = None\<rparr>"

text \<open>
  The graph writes every key of a node's return value over the state's value for that key
  and keeps the other keys (the schema declares no reducer).
\<close>

definition put :: "string option \<Rightarrow> string option \<Rightarrow> string option" where
  "put old new = (case new of None \<Rightarrow> old | Some v \<Rightarrow> Some v)"

definition merge :: "AppState \<Rightarrow> AppState \<Rightarrow> AppState" where
  "merge s u =
     \<lparr>question = put (question s) (question u),
      email = put (email s) (email u),
      intention = put (intention s) (intention u),
      answer = put (answer s) (answer u),
      error = put (error s) (error u)\<rparr>"

subsection \<open>The world outside the program\<close>

text \<open>A file's content is abstracted to the two paragraphs of the rendered document.\<close>

record document =
  doc_title :: string
  doc_body :: string

record mail =
  mail_from :: string
  mail_to :: string
  mail_subject :: string
  mail_text :: string
  attachment_name :: string
  attachment_data :: document

datatype node = GetUserData | AnalyzeIntention | GenerateAnswer | ProcessOutputs

text \<open>
  What an observer of a run sees, in order: printed lines, prompts of \<open>input\<close>, requests
  to the language model, calls of \<open>create_pdf\<close> with their arguments (title, content,
  file name), SMTP sessions (server, port, login, password, the message handed to
  \<open>sendmail\<close>), calls of \<open>os.remove\<close>, and the graph starting a node on a state.
\<close>

datatype event =
    Print string
  | Input string
  | LlmInvoke string
  | CreatePdf string string string
  | Smtp string int string string mail
  | OsRemove string
  | NodeStart node AppState

record world =
  trace :: "event list"
  files :: "string \<rightharpoonup> document"
  stdin :: "string list"

text \<open>
  The environment fixes what the collaborators answer:
  \<^item> \<open>getenv\<close>: the process environment after \<open>load_dotenv()\<close>;
  \<^item> \<open>py_int\<close>: the builtin \<open>int\<close> on a string, \<open>None\<close> where it raises \<open>ValueError\<close>;
  \<^item> \<open>llm_invoke k prompt\<close>: the k-th call of \<open>llm.invoke\<close>, \<open>Inr\<close> the content of the
    response or \<open>Inl\<close> the text of the exception raised;
  \<^item> \<open>doc_build filename title text\<close>: building the PDF, \<open>Some\<close> the text of an exception;
  \<^item> \<open>read_error path\<close>: reading an existing file into a MIME part, \<open>Some\<close> the text of
    an exception other than \<open>FileNotFoundError\<close>;
  \<^item> \<open>smtp server port login password message\<close>: the SMTP session, \<open>Some\<close> the text of
    an exception.
\<close>

record env =
  getenv :: "string \<Rightarrow> string option"
  py_int :: "string \<Rightarrow> int option"
  llm_invoke :: "nat \<Rightarrow> string \<Rightarrow> string + string"
  doc_build :: "string \<Rightarrow> string \<Rightarrow> string \<Rightarrow> string option"
  read_error :: "string \<Rightarrow> string option"
  smtp :: "string \<Rightarrow> int \<Rightarrow> string \<Rightarrow> string \<Rightarrow> mail \<Rightarrow> string option"

definition emit :: "event \<Rightarrow> world \<Rightarrow> world" where
  "emit e w = w\<lparr>trace := trace w @ [e]\<rparr>"

definition py_print :: "string \<Rightarrow> world \<Rightarrow> world" where
  "py_print s w = emit (Print s) w"

text \<open>\<open>input(prompt)\<close> shows the prompt and reads a line; at end of input it raises.\<close>

definition py_input :: "string \<Rightarrow> world \<Rightarrow> world \<times> (exn + string)" where
  "py_input prompt w =
     (case stdin w of
        [] \<Rightarrow> (emit (Input prompt) w, Inl (EOFError ''EOF when reading a line''))
      | l # ls \<Rightarrow> (emit (Input prompt) (w\<lparr>stdin := ls\<rparr>), Inr l))"

fun is_llm_invoke :: "event \<Rightarrow> bool" where
  "is_llm_invoke (LlmInvoke p) = True"
| "is_llm_invoke _ = False"

definition llm_call :: "env \<Rightarrow> string \<Rightarrow> world \<Rightarrow> world \<times> (string + string)" where
  "llm_call en prompt w =
     (emit (LlmInvoke prompt) w, llm_invoke en (length (filter is_llm_invoke (trace w))) prompt)"

definition os_remove :: "string \<Rightarrow> world \<Rightarrow> world \<times> (exn + unit)" where
  "os_remove path w =
     (let w1 = emit (OsRemove path) w
      in case files w1 path of
           None \<Rightarrow> (w1, Inl (FileNotFoundError path))
         | Some d \<Rightarrow> (w1\<lparr>files := (files w1)(path := None)\<rparr>, Inr ()))"

definition basename :: "string \<Rightarrow> string" where
  "basename p = rev (takeWhile (\<lambda>c. c \<noteq> CHR ''/'') (rev p))"

text \<open>
  \<open>{{}}\<close> is a set display whose one element is an empty dictionary. A dictionary is not
  hashable, so evaluating the display raises \<open>TypeError\<close> and yields no value.
\<close>

definition set_of_empty_dict :: "exn + AppState" where
  "set_of_empty_dict = Inl (TypeError (''unhashable type: 'dict'' @ [CHR 0x27]))"

subsection \<open>Auxiliary functions\<close>

definition replace_newlines :: "string \<Rightarrow> string" where
  "replace_newlines s = concat (map (\<lambda>c. if c = CHR 0x0A then ''<br/>'' else [c]) s)"

text \<open>\<open>create_pdf\<close> returns the file name, or \<open>None\<close> after printing the failure.\<close>

definition create_pdf :: "env \<Rightarrow> string \<Rightarrow> string \<Rightarrow> string \<Rightarrow> world \<Rightarrow> world \<times> string option" where
  "create_pdf en title content filename w =
     (let w1 = emit (CreatePdf title content filename) w;
          formatted_content = replace_newlines content
      in case doc_build en filename title formatted_content of
           None \<Rightarrow>
             (py_print (''PDF '' @ CHR 0x27 # filename @ CHR 0x27 # '' creado exitosamente.'')
                (w1\<lparr>files := (files w1)(filename \<mapsto>
                       \<lparr>doc_title = title, doc_body = formatted_content\<rparr>)\<rparr>),
              Some filename)
         | Some e \<Rightarrow> (py_print (''[ERROR] No se pudo crear el PDF: '' @ e) w1, None))"

text \<open>
  \<open>send_email_with_attachment\<close> reads the four settings first; the port is converted with
  \<open>int\<close> outside every \<open>try\<close>. Then come the credentials check, the attachment and the
  SMTP session, each printing its failure and returning.
\<close>

definition send_email_with_attachment ::
    "env \<Rightarrow> string \<Rightarrow> string \<Rightarrow> string \<Rightarrow> string \<Rightarrow> world \<Rightarrow> world \<times> (exn + unit)" where
  "send_email_with_attachment en recipient subject body attachment_path w =
     (let sender_email = getenv en ''EMAIL_HOST_USER'';
          password = getenv en ''EMAIL_HOST_PASSWORD'';
          smtp_server = (case getenv en ''EMAIL_HOST'' of None \<Rightarrow> ''smtp.gmail.com'' | Some h \<Rightarrow> h);
          not_configured =
            (py_print (CHR 0x0A # ''[ERROR] Credenciales de correo no configuradas en .env.'') w, Inr ())
      in case (case getenv en ''EMAIL_PORT'' of None \<Rightarrow> Some 587 | Some p \<Rightarrow> py_int en p) of
           None \<Rightarrow> (w, Inl (ValueError ''invalid literal for int() with base 10''))
         | Some smtp_port \<Rightarrow>
            (case sender_email of
               None \<Rightarrow> not_configured
             | Some user \<Rightarrow>
                (case password of
                   None \<Rightarrow> not_configured
                 | Some pw \<Rightarrow>
                    if user = [] \<or> pw = [] \<or> user = ''tu_correo@gmail.com'' then not_configured
                    else
                      (case files w attachment_path of
                         None \<Rightarrow>
                           (py_print (''[ERROR] Archivo adjunto no encontrado en: '' @ attachment_path) w,
                            Inr ())
                       | Some data \<Rightarrow>
                          (case read_error en attachment_path of
                             Some e \<Rightarrow>
                               (py_print (''[ERROR] No se pudo adjuntar el archivo: '' @ e) w, Inr ())
                           | None \<Rightarrow>
                              (let message =
                                     \<lparr>mail_from = user, mail_to = recipient, mail_subject = subject,
                                      mail_text = body, attachment_name = basename attachment_path,
                                      attachment_data = data\<rparr>;
                                   w1 = emit (Smtp smtp_server smtp_port user pw message) w
                               in case smtp en smtp_server smtp_port user pw message of
                                    None \<Rightarrow>
                                      (py_print (''Correo enviado exitosamente a '' @ recipient @ ''.'') w1,
                                       Inr ())
                                  | Some e \<Rightarrow>
                                      (py_print (''[ERROR] Ocurri'' @ CHR 0xF3 #
                                                 '' un error al enviar el correo: '' @ e) w1,
                                       Inr ())))))))"

subsection \<open>The nodes\<close>

definition get_user_data :: "env \<Rightarrow> AppState \<Rightarrow> world \<Rightarrow> world \<times> (exn + AppState)" where
  "get_user_data en state w =
     (let w0 = py_print ''--- Asistente de IA v2 (con LangGraph y PDF) ---'' w
      in case py_input ''Por favor, introduce tu pregunta: '' w0 of
           (w1, Inl e) \<Rightarrow> (w1, Inl e)
         | (w1, Inr q) \<Rightarrow>
            (case py_input ''Ahora, introduce tu correo para recibir la respuesta: '' w1 of
               (w2, Inl e) \<Rightarrow> (w2, Inl e)
             | (w2, Inr em) \<Rightarrow> (w2, Inr (empty_state\<lparr>question := Some q, email := Some em\<rparr>))))"

text \<open>The prompt is built before the \<open>try\<close>, so a missing question raises \<open>KeyError\<close> here.\<close>

definition analyze_intention :: "env \<Rightarrow> AppState \<Rightarrow> world \<Rightarrow> world \<times> (exn + AppState)" where
  "analyze_intention en state w =
     (let w0 = py_print (''Analizando intenci'' @ CHR 0xF3 # ''n de la pregunta...'') w
      in case question state of
           None \<Rightarrow> (w0, Inl (KeyError ''question''))
         | Some q \<Rightarrow>
            (let prompt = ''Analiza y resume en una sola frase la intenci'' @ CHR 0xF3 #
                          ''n principal de la siguiente pregunta: '' @ CHR 0x27 # q @ [CHR 0x27]
             in case llm_call en prompt w0 of
                  (w1, Inr content) \<Rightarrow>
                    (py_print (''Intenci'' @ CHR 0xF3 # ''n detectada: '' @ content) w1,
                     Inr (empty_state\<lparr>intention := Some content\<rparr>))
                | (w1, Inl e) \<Rightarrow>
                    (w1, Inr (empty_state\<lparr>error :=
                       Some (''Error analizando la intenci'' @ CHR 0xF3 # ''n: '' @ e)\<rparr>))))"

text \<open>
  Here the question is read inside the \<open>try\<close>: a missing key is caught like a failure of
  the model, and the text of \<open>KeyError('question')\<close> is the key in apostrophes.
\<close>

definition generate_answer :: "env \<Rightarrow> AppState \<Rightarrow> world \<Rightarrow> world \<times> (exn + AppState)" where
  "generate_answer en state w =
     (let w0 = py_print ''Generando respuesta principal...'' w
      in case question state of
           None \<Rightarrow>
             (w0, Inr (empty_state\<lparr>error :=
                Some (''Error generando la respuesta: '' @ CHR 0x27 # ''question'' @ [CHR 0x27])\<rparr>))
         | Some q \<Rightarrow>
            (case llm_call en q w0 of
               (w1, Inr content) \<Rightarrow>
                 (py_print ''Respuesta generada.'' w1, Inr (empty_state\<lparr>answer := Some content\<rparr>))
             | (w1, Inl e) \<Rightarrow>
                 (w1, Inr (empty_state\<lparr>error := Some (''Error generando la respuesta: '' @ e)\<rparr>))))"

text \<open>Both \<open>return\<close> statements of \<open>process_outputs\<close> evaluate \<open>{{}}\<close>.\<close>

definition process_outputs :: "env \<Rightarrow> AppState \<Rightarrow> world \<Rightarrow> world \<times> (exn + AppState)" where
  "process_outputs en state w =
     (let w0 = py_print ''Procesando salidas finales...'' w;
          deliver =
            (case answer state of
               None \<Rightarrow> (w0, Inl (KeyError ''answer''))
             | Some ans \<Rightarrow>
                (case question state of
                   None \<Rightarrow> (w0, Inl (KeyError ''question''))
                 | Some q \<Rightarrow>
                    (case email state of
                       None \<Rightarrow> (w0, Inl (KeyError ''email''))
                     | Some em \<Rightarrow>
                        (let pdf_filename = ''respuesta_ia.pdf''
                         in case create_pdf en (''Respuesta a: '' @ take 40 q @ ''...'') ans
                                   pdf_filename w0 of
                              (w1, None) \<Rightarrow> (w1, set_of_empty_dict)
                            | (w1, Some pdf_path) \<Rightarrow>
                               if pdf_path = [] then (w1, set_of_empty_dict)
                               else
                                 (let email_subject = ''Respuesta a tu pregunta: '' @ CHR 0x27 #
                                                      take 30 q @ ''...'' @ [CHR 0x27];
                                      email_body = ''Hola,'' @ CHR 0x0A # CHR 0x0A #
                                        ''Adjunto encontrar'' @ CHR 0xE1 #
                                        ''s la respuesta generada por la IA a tu pregunta.'' @
                                        CHR 0x0A # CHR 0x0A # ''Saludos.''
                                  in case send_email_with_attachment en em email_subject email_body
                                            pdf_path w1 of
                                       (w2, Inl e) \<Rightarrow> (w2, Inl e)
                                     | (w2, Inr u) \<Rightarrow>
                                        (case os_remove pdf_path w2 of
                                           (w3, Inl e) \<Rightarrow> (w3, Inl e)
                                         | (w3, Inr u) \<Rightarrow>
                                            (py_print (''Archivo temporal '' @ CHR 0x27 # pdf_path @
                                                       CHR 0x27 # '' eliminado.'') w3,
                                             set_of_empty_dict)))))))
      in case error state of
           None \<Rightarrow> deliver
         | Some err \<Rightarrow>
            if err \<noteq> []
            then (py_print (CHR 0x0A # ''[PROCESO INTERRUMPIDO] '' @ err) w0, set_of_empty_dict)
            else deliver)"

subsection \<open>The graph\<close>

fun node_action :: "env \<Rightarrow> node \<Rightarrow> AppState \<Rightarrow> world \<Rightarrow> world \<times> (exn + AppState)" where
  "node_action en GetUserData = get_user_data en"
| "node_action en AnalyzeIntention = analyze_intention en"
| "node_action en GenerateAnswer = generate_answer en"
| "node_action en ProcessOutputs = process_outputs en"

text \<open>The edges as added to the workflow; \<open>None\<close> is \<open>END\<close>. No edge is conditional.\<close>

fun edge :: "node \<Rightarrow> node option" where
  "edge GetUserData = Some AnalyzeIntention"
| "edge AnalyzeIntention = Some GenerateAnswer"
| "edge GenerateAnswer = Some ProcessOutputs"
| "edge ProcessOutputs = None"

fun steps_to_end :: "node \<Rightarrow> nat" where
  "steps_to_end GetUserData = 3"
| "steps_to_end AnalyzeIntention = 2"
| "steps_to_end GenerateAnswer = 1"
| "steps_to_end ProcessOutputs = 0"

text \<open>
  Running the compiled graph from a node: call the node on the current state, let an
  exception escape, otherwise merge the returned keys and follow the edge.
\<close>

function run_from :: "env \<Rightarrow> node \<Rightarrow> AppState \<Rightarrow> world \<Rightarrow> world \<times> (exn + AppState)" where
  "run_from en n state w =
     (case node_action en n state (emit (NodeStart n state) w) of
        (w1, Inl e) \<Rightarrow> (w1, Inl e)
      | (w1, Inr update) \<Rightarrow>
         (case edge n of
            None \<Rightarrow> (w1, Inr (merge state update))
          | Some n' \<Rightarrow> run_from en n' (merge state update) w1))"
  by pat_completeness auto
termination
  by (relation "measure (\<lambda>(en, n, state, w). steps_to_end n)") (auto elim: edge.elims)

declare run_from.simps [simp del]

text \<open>\<open>app.invoke(input)\<close>: the entry point is \<open>get_user_data\<close>.\<close>

definition invoke :: "env \<Rightarrow> AppState \<Rightarrow> world \<Rightarrow> world \<times> (exn + AppState)" where
  "invoke en input w = run_from en GetUserData input w"

text \<open>
  The module: the token check at load time, then the main block, whose argument
  expression \<open>{{}}\<close> is evaluated before \<open>app.invoke\<close> is called.
\<close>

definition module_main :: "env \<Rightarrow> world \<Rightarrow> world \<times> (exn + unit)" where
  "module_main en w =
     (if \<not> truthy (getenv en ''GITHUB_TOKEN'')
      then (w, Inl (ValueError ''GITHUB_TOKEN no encontrado en el archivo .env''))
      else
        (case set_of_empty_dict of
           Inl e \<Rightarrow> (w, Inl e)
         | Inr input \<Rightarrow>
            (case invoke en input w of
               (w1, Inl e) \<Rightarrow> (w1, Inl e)
             | (w1, Inr final) \<Rightarrow>
                 (py_print (CHR 0x0A # ''--- Proceso del grafo finalizado. ---'') w1, Inr ()))))"

subsection \<open>A concrete run: scenario A\<close>

text \<open>
  The user types the question \<open>What is 2+2?\<close> and the address \<open>a@b.com\<close>; the model
  answers \<open>Arithmetic question\<close> to the first request and \<open>4\<close> to the second; the
  sender's address and password are configured, host and port are not; rendering,
  reading the file and the SMTP session succeed.
\<close>

text \<open>
  A stand-in for the builtin \<open>int\<close>: it agrees with it on short strings of ASCII digits
  and on strings that hold no digit at all, and has no value elsewhere (so it is not
  \<open>int\<close> on strings with a sign, blanks or underscores). The scenarios apply it to
  \<open>abc\<close> only.
\<close>

definition decimal :: "string \<Rightarrow> int option" where
  "decimal s =
     (if s \<noteq> [] \<and> list_all (\<lambda>c. c \<in> set ''0123456789'') s
      then Some (foldl (\<lambda>n c. 10 * n + (of_char c - 48)) 0 s) else None)"

definition scenario_getenv :: "string \<Rightarrow> string option" where
  "scenario_getenv k =
     (if k = ''GITHUB_TOKEN'' then Some ''token''
      else if k = ''EMAIL_HOST_USER'' then Some ''bot@example.org''
      else if k = ''EMAIL_HOST_PASSWORD'' then Some ''secret''
      else None)"

definition scenario_env :: env where
  "scenario_env =
     \<lparr>getenv = scenario_getenv,
      py_int = decimal,
      llm_invoke = (\<lambda>k prompt. if k = 0 then Inr ''Arithmetic question'' else Inr ''4''),
      doc_build = (\<lambda>filename title text. None),
      read_error = (\<lambda>path. None),
      smtp = (\<lambda>server port login password message. None)\<rparr>"

definition scenario_world :: world where
  "scenario_world = \<lparr>trace = [], files = Map.empty, stdin = [''What is 2+2?'', ''a@b.com'']\<rparr>"

subsection \<open>Reading a trace\<close>

definition llm_requests :: "event list \<Rightarrow> string list" where
  "llm_requests es = concat (map (\<lambda>e. case e of LlmInvoke p \<Rightarrow> [p] | _ \<Rightarrow> []) es)"

definition started_nodes :: "event list \<Rightarrow> node list" where
  "started_nodes es = concat (map (\<lambda>e. case e of NodeStart n s \<Rightarrow> [n] | _ \<Rightarrow> []) es)"

definition states_at :: "node \<Rightarrow> event list \<Rightarrow> AppState list" where
  "states_at n es =
     concat (map (\<lambda>e. case e of NodeStart m s \<Rightarrow> (if m = n then [s] else []) | _ \<Rightarrow> []) es)"

definition pdf_calls :: "event list \<Rightarrow> (string \<times> string \<times> string) list" where
  "pdf_calls es = concat (map (\<lambda>e. case e of CreatePdf t c f \<Rightarrow> [(t, c, f)] | _ \<Rightarrow> []) es)"

definition sent_mails :: "event list \<Rightarrow> mail list" where
  "sent_mails es = concat (map (\<lambda>e. case e of Smtp h p u pw m \<Rightarrow> [m] | _ \<Rightarrow> []) es)"

definition smtp_sessions :: "event list \<Rightarrow> (string \<times> int) list" where
  "smtp_sessions es = concat (map (\<lambda>e. case e of Smtp h p u pw m \<Rightarrow> [(h, p)] | _ \<Rightarrow> []) es)"

text \<open>The messages of the SMTP sessions that ended without an exception.\<close>

definition delivered_mails :: "env \<Rightarrow> event list \<Rightarrow> mail list" where
  "delivered_mails en es =
     concat (map (\<lambda>e. case e of
               Smtp h p u pw m \<Rightarrow> (if smtp en h p u pw m = None then [m] else [])
             | _ \<Rightarrow> []) es)"

definition removed_paths :: "event list \<Rightarrow> string list" where
  "removed_paths es = concat (map (\<lambda>e. case e of OsRemove p \<Rightarrow> [p] | _ \<Rightarrow> []) es)"

text \<open>
  The two kinds of line that tell the user how the run ended: the line printed after a
  successful SMTP session, and the lines that report a failure with its reason.
\<close>

definition deliveries :: "event list \<Rightarrow> string list" where
  "deliveries es =
     concat (map (\<lambda>e. case e of
               Print s \<Rightarrow> (if prefix ''Correo enviado exitosamente a '' s then [s] else [])
             | _ \<Rightarrow> []) es)"

definition reports :: "event list \<Rightarrow> string list" where
  "reports es =
     concat (map (\<lambda>e. case e of
               Print s \<Rightarrow>
                 (if prefix (CHR 0x0A # ''[PROCESO INTERRUMPIDO] '') s \<or> prefix ''[ERROR] '' s \<or>
                     prefix (CHR 0x0A # ''[ERROR] '') s
                  then [s] else [])
             | _ \<Rightarrow> []) es)"

text \<open>The port the SMTP session would use: 587 unless \<open>EMAIL_PORT\<close> is set.\<close>

definition smtp_port_of :: "env \<Rightarrow> int option" where
  "smtp_port_of en = (case getenv en ''EMAIL_PORT'' of None \<Rightarrow> Some 587 | Some p \<Rightarrow> py_int en p)"

subsection \<open>Names for intermediate values of a run\<close>

text \<open>
  The title, subject and mail text the terminal step builds from a question, the world
  after a successful rendering and after the dispatch call, and the state, events and
  world produced by the three steps before the terminal one, given what the model
  answered to the two requests.
\<close>

definition title_of :: "string \<Rightarrow> string" where
  "title_of q = ''Respuesta a: '' @ take 40 q @ ''...''"

definition subject_of :: "string \<Rightarrow> string" where
  "subject_of q = ''Respuesta a tu pregunta: '' @ CHR 0x27 # take 30 q @ ''...'' @ [CHR 0x27]"

definition greeting :: string where
  "greeting = ''Hola,'' @ CHR 0x0A # CHR 0x0A # ''Adjunto encontrar'' @ CHR 0xE1 #
     ''s la respuesta generada por la IA a tu pregunta.'' @ CHR 0x0A # CHR 0x0A # ''Saludos.''"

definition rendered :: "string \<Rightarrow> string \<Rightarrow> world \<Rightarrow> world" where
  "rendered q a w =
     w\<lparr>files := (files w)(''respuesta_ia.pdf'' \<mapsto>
                  \<lparr>doc_title = title_of q, doc_body = replace_newlines a\<rparr>),
       trace := trace w @
         [Print ''Procesando salidas finales...'',
          CreatePdf (title_of q) a ''respuesta_ia.pdf'',
          Print (''PDF '' @ CHR 0x27 # ''respuesta_ia.pdf'' @ CHR 0x27 # '' creado exitosamente.'')]\<rparr>"

definition dispatched :: "env \<Rightarrow> string \<Rightarrow> string \<Rightarrow> string \<Rightarrow> world \<Rightarrow> world" where
  "dispatched en em q a w =
     fst (send_email_with_attachment en em (subject_of q) greeting ''respuesta_ia.pdf''
            (rendered q a w))"

definition intent_prompt :: "string \<Rightarrow> string" where
  "intent_prompt q = ''Analiza y resume en una sola frase la intenci'' @ CHR 0xF3 #
     ''n principal de la siguiente pregunta: '' @ CHR 0x27 # q @ [CHR 0x27]"

definition typed_in :: "string \<Rightarrow> string \<Rightarrow> AppState" where
  "typed_in q r = empty_state\<lparr>question := Some q, email := Some r\<rparr>"

definition intent_update :: "string + string \<Rightarrow> AppState" where
  "intent_update r1 =
     (case r1 of
        Inr c \<Rightarrow> empty_state\<lparr>intention := Some c\<rparr>
      | Inl d \<Rightarrow> empty_state\<lparr>error := Some (''Error analizando la intenci'' @ CHR 0xF3 # ''n: '' @ d)\<rparr>)"

definition intent_events :: "string \<Rightarrow> string + string \<Rightarrow> event list" where
  "intent_events q r1 =
     [Print (''Analizando intenci'' @ CHR 0xF3 # ''n de la pregunta...''), LlmInvoke (intent_prompt q)] @
     (case r1 of Inr c \<Rightarrow> [Print (''Intenci'' @ CHR 0xF3 # ''n detectada: '' @ c)] | Inl d \<Rightarrow> [])"

definition answer_update :: "string + string \<Rightarrow> AppState" where
  "answer_update r2 =
     (case r2 of
        Inr c \<Rightarrow> empty_state\<lparr>answer := Some c\<rparr>
      | Inl d \<Rightarrow> empty_state\<lparr>error := Some (''Error generando la respuesta: '' @ d)\<rparr>)"

definition answer_events :: "string \<Rightarrow> string + string \<Rightarrow> event list" where
  "answer_events q r2 =
     [Print ''Generando respuesta principal...'', LlmInvoke q] @
     (case r2 of Inr c \<Rightarrow> [Print ''Respuesta generada.''] | Inl d \<Rightarrow> [])"

definition terminal_state :: "AppState \<Rightarrow> string \<Rightarrow> string \<Rightarrow> string + string \<Rightarrow> string + string \<Rightarrow> AppState" where
  "terminal_state inp q r r1 r2 =
     merge (merge (merge inp (typed_in q r)) (intent_update r1)) (answer_update r2)"

definition terminal_world ::
    "world \<Rightarrow> AppState \<Rightarrow> string \<Rightarrow> string \<Rightarrow> string list \<Rightarrow> string + string \<Rightarrow> string + string \<Rightarrow> world" where
  "terminal_world w inp q r rest r1 r2 =
     w\<lparr>stdin := rest,
       trace := trace w @
         [NodeStart GetUserData inp,
          Print ''--- Asistente de IA v2 (con LangGraph y PDF) ---'',
          Input ''Por favor, introduce tu pregunta: '',
          Input ''Ahora, introduce tu correo para recibir la respuesta: '',
          NodeStart AnalyzeIntention (merge inp (typed_in q r))] @
         intent_events q r1 @
         [NodeStart GenerateAnswer (merge (merge inp (typed_in q r)) (intent_update r1))] @
         answer_events q r2 @
         [NodeStart ProcessOutputs (terminal_state inp q r r1 r2)]\<rparr>"

subsection \<open>Further concrete environments\<close>

text \<open>The first request to the model fails, the second is answered.\<close>

definition intent_failure_env :: env where
  "intent_failure_env =
     scenario_env\<lparr>llm_invoke := (\<lambda>k prompt. if k = 0 then Inl ''timeout'' else Inr ''4'')\<rparr>"

text \<open>Both requests succeed and the answer is the empty string.\<close>

definition empty_answer_env :: env where
  "empty_answer_env =
     scenario_env\<lparr>llm_invoke := (\<lambda>k prompt. if k = 0 then Inr ''Arithmetic question'' else Inr [])\<rparr>"

text \<open>Standard input is closed.\<close>

definition no_input_world :: world where
  "no_input_world = scenario_world\<lparr>stdin := []\<rparr>"

text \<open>\<open>EMAIL_PORT\<close> is set to a string that is not a number.\<close>

definition bad_port_env :: env where
  "bad_port_env = scenario_env\<lparr>getenv := scenario_getenv(''EMAIL_PORT'' \<mapsto> ''abc'')\<rparr>"

text \<open>The SMTP server cannot be reached.\<close>

definition smtp_down_env :: env where
  "smtp_down_env =
     scenario_env\<lparr>smtp := (\<lambda>server port login password message. Some ''connection refused'')\<rparr>"

text \<open>Nothing is configured.\<close>

definition unconfigured_env :: env where
  "unconfigured_env = scenario_env\<lparr>getenv := (\<lambda>k. None)\<rparr>"

text \<open>A world in which the file \<open>doc.pdf\<close> exists.\<close>

definition attachment_world :: world where
  "attachment_world =
     \<lparr>trace = [], files = [''doc.pdf'' \<mapsto> \<lparr>doc_title = ''t'', doc_body = ''b''\<rparr>], stdin = []\<rparr>"

text \<open>The state after both requests of scenario A were answered.\<close>

definition answered_state :: AppState where
  "answered_state =
     \<lparr>question = Some ''What is 2+2?'', email = Some ''a@b.com'',
      intention = Some ''Arithmetic question'', answer = Some ''4'', error = None\<rparr>"

text \<open>The same state with a question of 100 characters.\<close>

definition long_question_state :: AppState where
  "long_question_state = answered_state\<lparr>question := Some (replicate 100 (CHR ''x''))\<rparr>"

section \<open>Properties\<close>

subsection \<open>Reading a trace piece by piece\<close>

lemma llm_requests_Nil: "llm_requests [] = []"
  by (simp add: llm_requests_def)

lemma llm_requests_Cons: "llm_requests (e # es) = (case e of LlmInvoke p \<Rightarrow> [p] | _ \<Rightarrow> []) @ llm_requests es"
  by (simp add: llm_requests_def)

lemma llm_requests_append: "llm_requests (xs @ ys) = llm_requests xs @ llm_requests ys"
  by (simp add: llm_requests_def)

lemma started_nodes_Nil: "started_nodes [] = []"
  by (simp add: started_nodes_def)

lemma started_nodes_Cons: "started_nodes (e # es) = (case e of NodeStart n s \<Rightarrow> [n] | _ \<Rightarrow> []) @ started_nodes es"
  by (simp add: started_nodes_def)

lemma started_nodes_append: "started_nodes (xs @ ys) = started_nodes xs @ started_nodes ys"
  by (simp add: started_nodes_def)

lemma states_at_Nil: "states_at n [] = []"
  by (simp add: states_at_def)

lemma states_at_Cons: "states_at n (e # es) = (case e of NodeStart m s \<Rightarrow> (if m = n then [s] else []) | _ \<Rightarrow> []) @ states_at n es"
  by (simp add: states_at_def)

lemma states_at_append: "states_at n (xs @ ys) = states_at n xs @ states_at n ys"
  by (simp add: states_at_def)

lemma pdf_calls_Nil: "pdf_calls [] = []"
  by (simp add: pdf_calls_def)

lemma pdf_calls_Cons: "pdf_calls (e # es) = (case e of CreatePdf t c f \<Rightarrow> [(t, c, f)] | _ \<Rightarrow> []) @ pdf_calls es"
  by (simp add: pdf_calls_def)

lemma pdf_calls_append: "pdf_calls (xs @ ys) = pdf_calls xs @ pdf_calls ys"
  by (simp add: pdf_calls_def)

lemma sent_mails_Nil: "sent_mails [] = []"
  by (simp add: sent_mails_def)

lemma sent_mails_Cons: "sent_mails (e # es) = (case e of Smtp h p u pw m \<Rightarrow> [m] | _ \<Rightarrow> []) @ sent_mails es"
  by (simp add: sent_mails_def)

lemma sent_mails_append: "sent_mails (xs @ ys) = sent_mails xs @ sent_mails ys"
  by (simp add: sent_mails_def)

lemma smtp_sessions_Nil: "smtp_sessions [] = []"
  by (simp add: smtp_sessions_def)

lemma smtp_sessions_Cons: "smtp_sessions (e # es) = (case e of Smtp h p u pw m \<Rightarrow> [(h, p)] | _ \<Rightarrow> []) @ smtp_sessions es"
  by (simp add: smtp_sessions_def)

lemma smtp_sessions_append: "smtp_sessions (xs @ ys) = smtp_sessions xs @ smtp_sessions ys"
  by (simp add: smtp_sessions_def)

lemma delivered_mails_Nil: "delivered_mails en [] = []"
  by (simp add: delivered_mails_def)

lemma delivered_mails_Cons:
  "delivered_mails en (e # es) =
     (case e of
        Smtp h p u pw m \<Rightarrow> (if smtp en h p u pw m = None then [m] else [])
      | _ \<Rightarrow> []) @ delivered_mails en es"
  by (simp add: delivered_mails_def)

lemma delivered_mails_append:
  "delivered_mails en (xs @ ys) = delivered_mails en xs @ delivered_mails en ys"
  by (simp add: delivered_mails_def)

lemma removed_paths_Nil: "removed_paths [] = []"
  by (simp add: removed_paths_def)

lemma removed_paths_Cons: "removed_paths (e # es) = (case e of OsRemove p \<Rightarrow> [p] | _ \<Rightarrow> []) @ removed_paths es"
  by (simp add: removed_paths_def)

lemma removed_paths_append: "removed_paths (xs @ ys) = removed_paths xs @ removed_paths ys"
  by (simp add: removed_paths_def)

lemma deliveries_Nil: "deliveries [] = []"
  by (simp add: deliveries_def)

lemma deliveries_Cons:
  "deliveries (e # es) =
     (case e of Print s \<Rightarrow> (if prefix ''Correo enviado exitosamente a '' s then [s] else []) | _ \<Rightarrow> []) @ deliveries es"
  by (simp add: deliveries_def)

lemma deliveries_append: "deliveries (xs @ ys) = deliveries xs @ deliveries ys"
  by (simp add: deliveries_def)

lemma reports_Nil: "reports [] = []"
  by (simp add: reports_def)

lemma reports_Cons:
  "reports (e # es) =
     (case e of Print s \<Rightarrow> (if prefix (CHR 0x0A # ''[PROCESO INTERRUMPIDO] '') s \<or> prefix ''[ERROR] '' s \<or> prefix (CHR 0x0A # ''[ERROR] '') s then [s] else []) | _ \<Rightarrow> []) @ reports es"
  by (simp add: reports_def)

lemma reports_append: "reports (xs @ ys) = reports xs @ reports ys"
  by (simp add: reports_def)

lemmas read_trace =
  llm_requests_Nil llm_requests_Cons llm_requests_append
  started_nodes_Nil started_nodes_Cons started_nodes_append
  states_at_Nil states_at_Cons states_at_append
  pdf_calls_Nil pdf_calls_Cons pdf_calls_append
  sent_mails_Nil sent_mails_Cons sent_mails_append
  smtp_sessions_Nil smtp_sessions_Cons smtp_sessions_append
  delivered_mails_Nil delivered_mails_Cons delivered_mails_append
  removed_paths_Nil removed_paths_Cons removed_paths_append
  deliveries_Nil deliveries_Cons deliveries_append
  reports_Nil reports_Cons reports_append

subsection \<open>How each function acts on the world\<close>

lemmas io_defs = py_print_def emit_def py_input_def llm_call_def

lemma send_email_bad_port:
  "smtp_port_of en = None \<Longrightarrow>
   send_email_with_attachment en r sub b p w =
     (w, Inl (ValueError ''invalid literal for int() with base 10''))"
  by (simp add: send_email_with_attachment_def smtp_port_of_def)

lemma send_email_returns:
  "smtp_port_of en = Some n \<Longrightarrow> snd (send_email_with_attachment en r sub b p w) = Inr ()"
  by (simp add: send_email_with_attachment_def smtp_port_of_def Let_def split: option.splits)

lemma send_email_files:
  "files (fst (send_email_with_attachment en r sub b p w)) = files w"
  by (simp add: send_email_with_attachment_def io_defs Let_def split: option.splits)

lemma send_email_outcome:
  "smtp_port_of en = Some n \<Longrightarrow>
   length (deliveries (trace (fst (send_email_with_attachment en r sub b p w)))) +
   length (reports (trace (fst (send_email_with_attachment en r sub b p w)))) =
   length (deliveries (trace w)) + length (reports (trace w)) + 1"
  by (simp add: send_email_with_attachment_def smtp_port_of_def io_defs deliveries_def reports_def Let_def
      split: option.splits)

lemma send_email_quiet:
  "pdf_calls (trace (fst (send_email_with_attachment en r sub b p w))) = pdf_calls (trace w) \<and>
   removed_paths (trace (fst (send_email_with_attachment en r sub b p w))) = removed_paths (trace w) \<and>
   started_nodes (trace (fst (send_email_with_attachment en r sub b p w))) = started_nodes (trace w) \<and>
   llm_requests (trace (fst (send_email_with_attachment en r sub b p w))) = llm_requests (trace w)"
  by (simp add: send_email_with_attachment_def io_defs pdf_calls_def removed_paths_def
      started_nodes_def llm_requests_def Let_def split: option.splits)

lemma process_outputs_interrupted:
  "error s = Some err \<Longrightarrow> err \<noteq> [] \<Longrightarrow>
   process_outputs en s w =
     (w\<lparr>trace := trace w @ [Print ''Procesando salidas finales...'',
            Print (CHR 0x0A # ''[PROCESO INTERRUMPIDO] '' @ err)]\<rparr>, set_of_empty_dict)"
  by (simp add: process_outputs_def io_defs)

lemma process_outputs_not_rendered:
  assumes "\<not> truthy (error s)" and "answer s = Some a" and "question s = Some q"
    and "email s = Some em"
    and "doc_build en ''respuesta_ia.pdf'' (title_of q) (replace_newlines a) = Some e"
  shows "process_outputs en s w =
     (w\<lparr>trace := trace w @ [Print ''Procesando salidas finales...'',
            CreatePdf (title_of q) a ''respuesta_ia.pdf'',
            Print (''[ERROR] No se pudo crear el PDF: '' @ e)]\<rparr>, set_of_empty_dict)"
  using assms
  by (cases "error s") (simp_all add: process_outputs_def create_pdf_def io_defs Let_def title_of_def)

lemma process_outputs_rendered:
  assumes "\<not> truthy (error s)" and "answer s = Some a" and "question s = Some q"
    and "email s = Some em"
    and "doc_build en ''respuesta_ia.pdf'' (title_of q) (replace_newlines a) = None"
  shows "process_outputs en s w =
     (case send_email_with_attachment en em (subject_of q) greeting ''respuesta_ia.pdf''
             (rendered q a w) of
        (w2, Inl e) \<Rightarrow> (w2, Inl e)
      | (w2, Inr u) \<Rightarrow>
         (case os_remove ''respuesta_ia.pdf'' w2 of
            (w3, Inl e) \<Rightarrow> (w3, Inl e)
          | (w3, Inr u) \<Rightarrow>
              (py_print (''Archivo temporal '' @ CHR 0x27 # ''respuesta_ia.pdf'' @ CHR 0x27 #
                         '' eliminado.'') w3,
               set_of_empty_dict)))"
  using assms
  by (cases "error s")
    (simp_all add: process_outputs_def create_pdf_def io_defs Let_def title_of_def subject_of_def
      greeting_def rendered_def)

lemma os_remove_existing:
  "files w p = Some d \<Longrightarrow>
   os_remove p w = (w\<lparr>files := (files w)(p := None), trace := trace w @ [OsRemove p]\<rparr>, Inr ())"
  by (simp add: os_remove_def io_defs)

lemma process_outputs_bad_port:
  assumes "\<not> truthy (error s)" and "answer s = Some a" and "question s = Some q"
    and "email s = Some em"
    and "doc_build en ''respuesta_ia.pdf'' (title_of q) (replace_newlines a) = None"
    and "smtp_port_of en = None"
  shows "process_outputs en s w =
     (rendered q a w, Inl (ValueError ''invalid literal for int() with base 10''))"
  by (simp add: process_outputs_rendered [OF assms(1-5)] send_email_bad_port [OF assms(6)])

lemma process_outputs_dispatched:
  assumes "\<not> truthy (error s)" and "answer s = Some a" and "question s = Some q"
    and "email s = Some em"
    and "doc_build en ''respuesta_ia.pdf'' (title_of q) (replace_newlines a) = None"
    and "smtp_port_of en = Some n"
  shows "process_outputs en s w =
     ((dispatched en em q a w)
        \<lparr>files := (files (dispatched en em q a w))(''respuesta_ia.pdf'' := None),
         trace := trace (dispatched en em q a w) @
           [OsRemove ''respuesta_ia.pdf'',
            Print (''Archivo temporal '' @ CHR 0x27 # ''respuesta_ia.pdf'' @ CHR 0x27 #
                   '' eliminado.'')]\<rparr>,
      set_of_empty_dict)"
proof -
  let ?send = "send_email_with_attachment en em (subject_of q) greeting ''respuesta_ia.pdf''
                 (rendered q a w)"
  have "snd ?send = Inr ()"
    using assms(6) by (rule send_email_returns)
  then have s: "?send = (dispatched en em q a w, Inr ())"
    by (simp add: prod_eq_iff dispatched_def)
  have "files (dispatched en em q a w) = files (rendered q a w)"
    unfolding dispatched_def by (rule send_email_files)
  then have f: "files (dispatched en em q a w) ''respuesta_ia.pdf'' =
      Some \<lparr>doc_title = title_of q, doc_body = replace_newlines a\<rparr>"
    by (simp add: rendered_def)
  show ?thesis
    unfolding process_outputs_rendered [OF assms(1-5)] s
    by (simp add: os_remove_existing [OF f] py_print_def emit_def)
qed

lemma get_user_data_reads:
  "stdin w = q # r # rest \<Longrightarrow>
   get_user_data en s w =
     (w\<lparr>stdin := rest,
        trace := trace w @
          [Print ''--- Asistente de IA v2 (con LangGraph y PDF) ---'',
           Input ''Por favor, introduce tu pregunta: '',
           Input ''Ahora, introduce tu correo para recibir la respuesta: '']\<rparr>,
      Inr (typed_in q r))"
  by (simp add: get_user_data_def io_defs typed_in_def)

lemma analyze_intention_result:
  "question s = Some q \<Longrightarrow>
   analyze_intention en s w =
     (w\<lparr>trace := trace w @
          intent_events q (llm_invoke en (length (filter is_llm_invoke (trace w))) (intent_prompt q))\<rparr>,
      Inr (intent_update (llm_invoke en (length (filter is_llm_invoke (trace w))) (intent_prompt q))))"
  by (simp add: analyze_intention_def io_defs intent_prompt_def intent_update_def intent_events_def
      Let_def split: sum.splits)

lemma generate_answer_result:
  "question s = Some q \<Longrightarrow>
   generate_answer en s w =
     (w\<lparr>trace := trace w @
          answer_events q (llm_invoke en (length (filter is_llm_invoke (trace w))) q)\<rparr>,
      Inr (answer_update (llm_invoke en (length (filter is_llm_invoke (trace w))) q)))"
  by (simp add: generate_answer_def io_defs answer_update_def answer_events_def
      Let_def split: sum.splits)

lemma question_kept:
  "question (merge (merge inp (typed_in q r)) (intent_update r1)) = Some q"
  "question (merge inp (typed_in q r)) = Some q"
  by (simp_all add: merge_def put_def typed_in_def intent_update_def empty_state_def split: sum.splits)

lemma invoke_to_terminal:
  assumes "stdin w = q # r # rest"
  shows "invoke en inp w =
     (case process_outputs en
             (terminal_state inp q r
                (llm_invoke en (length (filter is_llm_invoke (trace w))) (intent_prompt q))
                (llm_invoke en (Suc (length (filter is_llm_invoke (trace w)))) q))
             (terminal_world w inp q r rest
                (llm_invoke en (length (filter is_llm_invoke (trace w))) (intent_prompt q))
                (llm_invoke en (Suc (length (filter is_llm_invoke (trace w)))) q)) of
        (w4, Inl e) \<Rightarrow> (w4, Inl e)
      | (w4, Inr u) \<Rightarrow>
          (w4, Inr (merge (terminal_state inp q r
                (llm_invoke en (length (filter is_llm_invoke (trace w))) (intent_prompt q))
                (llm_invoke en (Suc (length (filter is_llm_invoke (trace w)))) q)) u)))"
proof -
  have i: "stdin (emit (NodeStart GetUserData inp) w) = q # r # rest"
    using assms by (simp add: emit_def)
  show ?thesis
    unfolding invoke_def
    apply (subst run_from.simps)
    apply (simp add: get_user_data_reads [OF i])
    apply (subst run_from.simps)
    apply (simp add: analyze_intention_result [OF question_kept(2)])
    apply (subst run_from.simps)
    apply (simp add: generate_answer_result [OF question_kept(1)])
    apply (subst run_from.simps)
    apply (simp add: emit_def intent_events_def terminal_world_def terminal_state_def split: sum.splits)
    done
qed

lemma dispatched_quiet:
  "pdf_calls (trace (dispatched en em q a w)) = pdf_calls (trace (rendered q a w)) \<and>
   removed_paths (trace (dispatched en em q a w)) = removed_paths (trace (rendered q a w)) \<and>
   started_nodes (trace (dispatched en em q a w)) = started_nodes (trace (rendered q a w)) \<and>
   llm_requests (trace (dispatched en em q a w)) = llm_requests (trace (rendered q a w))"
  unfolding dispatched_def by (rule send_email_quiet)

lemma rendered_observed:
  "pdf_calls (trace (rendered q a w)) = pdf_calls (trace w) @ [(title_of q, a, ''respuesta_ia.pdf'')]"
  "removed_paths (trace (rendered q a w)) = removed_paths (trace w)"
  "started_nodes (trace (rendered q a w)) = started_nodes (trace w)"
  "llm_requests (trace (rendered q a w)) = llm_requests (trace w)"
  by (simp_all add: rendered_def read_trace)

lemmas model_defs = invoke_def run_from.simps get_user_data_def analyze_intention_def
  generate_answer_def process_outputs_def create_pdf_def send_email_with_attachment_def
  os_remove_def io_defs merge_def put_def empty_state_def set_of_empty_dict_def
  replace_newlines_def basename_def Let_def

lemmas scenario_defs = scenario_env_def scenario_world_def scenario_getenv_def decimal_def
  bad_port_env_def

lemma process_outputs_missing_key:
  "\<not> truthy (error s) \<Longrightarrow> answer s = None \<or> question s = None \<or> email s = None \<Longrightarrow>
   process_outputs en s w = process_outputs en' s w"
  by (cases "error s") (auto simp add: process_outputs_def Let_def split: option.splits)

lemma dispatched_files:
  "files (dispatched en em q a w) = files (rendered q a w)"
  unfolding dispatched_def by (rule send_email_files)

lemma terminal_world_observed:
  "started_nodes (trace (terminal_world w inp q r rest r1 r2)) =
     started_nodes (trace w) @ [GetUserData, AnalyzeIntention, GenerateAnswer, ProcessOutputs]"
  "llm_requests (trace (terminal_world w inp q r rest r1 r2)) =
     llm_requests (trace w) @ [intent_prompt q, q]"
  "states_at ProcessOutputs (trace (terminal_world w inp q r rest r1 r2)) =
     states_at ProcessOutputs (trace w) @ [terminal_state inp q r r1 r2]"
  "pdf_calls (trace (terminal_world w inp q r rest r1 r2)) = pdf_calls (trace w)"
  "sent_mails (trace (terminal_world w inp q r rest r1 r2)) = sent_mails (trace w)"
  "removed_paths (trace (terminal_world w inp q r rest r1 r2)) = removed_paths (trace w)"
  "deliveries (trace (terminal_world w inp q r rest r1 r2)) = deliveries (trace w)"
  "reports (trace (terminal_world w inp q r rest r1 r2)) = reports (trace w)"
  by (simp_all add: terminal_world_def intent_events_def answer_events_def read_trace
      split: sum.splits)

lemma terminal_state_fields:
  "question (terminal_state inp q r r1 r2) = Some q"
  "email (terminal_state inp q r r1 r2) = Some r"
  "answer (terminal_state inp q r r1 r2) = (case r2 of Inr a \<Rightarrow> Some a | Inl e \<Rightarrow> answer inp)"
  "error (terminal_state inp q r r1 r2) =
     (case r2 of
        Inl e \<Rightarrow> Some (''Error generando la respuesta: '' @ e)
      | Inr a \<Rightarrow>
         (case r1 of
            Inl d \<Rightarrow> Some (''Error analizando la intenci'' @ CHR 0xF3 # ''n: '' @ d)
          | Inr c \<Rightarrow> error inp))"
  by (simp_all add: terminal_state_def merge_def put_def typed_in_def intent_update_def
      answer_update_def empty_state_def split: sum.splits)

lemma invoke_world:
  assumes "stdin w = q # r # rest"
  shows "fst (invoke en inp w) =
     fst (process_outputs en
            (terminal_state inp q r
                (llm_invoke en (length (filter is_llm_invoke (trace w))) (intent_prompt q))
                (llm_invoke en (Suc (length (filter is_llm_invoke (trace w)))) q))
            (terminal_world w inp q r rest
                (llm_invoke en (length (filter is_llm_invoke (trace w))) (intent_prompt q))
                (llm_invoke en (Suc (length (filter is_llm_invoke (trace w)))) q)))"
  unfolding invoke_to_terminal [OF assms] by (simp split: prod.splits sum.splits)

lemma invoke_result:
  assumes "stdin w = q # r # rest"
  shows "snd (invoke en inp w) =
     (case snd (process_outputs en
            (terminal_state inp q r
                (llm_invoke en (length (filter is_llm_invoke (trace w))) (intent_prompt q))
                (llm_invoke en (Suc (length (filter is_llm_invoke (trace w)))) q))
            (terminal_world w inp q r rest
                (llm_invoke en (length (filter is_llm_invoke (trace w))) (intent_prompt q))
                (llm_invoke en (Suc (length (filter is_llm_invoke (trace w)))) q))) of
        Inl e \<Rightarrow> Inl e
      | Inr u \<Rightarrow> Inr (merge (terminal_state inp q r
                (llm_invoke en (length (filter is_llm_invoke (trace w))) (intent_prompt q))
                (llm_invoke en (Suc (length (filter is_llm_invoke (trace w)))) q)) u))"
  unfolding invoke_to_terminal [OF assms] by (simp split: prod.splits sum.splits)

lemma process_outputs_key_error:
  "\<not> truthy (error s) \<Longrightarrow> answer s = None \<or> question s = None \<or> email s = None \<Longrightarrow>
   fst (process_outputs en s w) = w\<lparr>trace := trace w @ [Print ''Procesando salidas finales...'']\<rparr>"
  by (cases "error s") (auto simp add: process_outputs_def Let_def io_defs split: option.splits)

lemma send_email_starts_no_node:
  "states_at k (trace (fst (send_email_with_attachment en r sub b p w))) = states_at k (trace w)"
  by (simp add: send_email_with_attachment_def io_defs states_at_def Let_def split: option.splits)

lemma process_outputs_starts_no_node:
  "states_at k (trace (fst (process_outputs en s w))) = states_at k (trace w)"
proof (cases "truthy (error s)")
  case True
  then obtain err where "error s = Some err" and "err \<noteq> []"
    by (cases "error s") auto
  then show ?thesis
    by (simp add: process_outputs_interrupted read_trace)
next
  case no_error: False
  show ?thesis
  proof (cases "answer s = None \<or> question s = None \<or> email s = None")
    case True
    show ?thesis
      by (simp add: process_outputs_key_error [OF no_error True] read_trace)
  next
    case False
    then obtain a q em where keys: "answer s = Some a" "question s = Some q" "email s = Some em"
      by auto
    show ?thesis
    proof (cases "doc_build en ''respuesta_ia.pdf'' (title_of q) (replace_newlines a)")
      case (Some e)
      show ?thesis
        by (simp add: process_outputs_not_rendered [OF no_error keys Some] read_trace)
    next
      case None
      show ?thesis
      proof (cases "smtp_port_of en")
        case bad: None
        show ?thesis
          by (simp add: process_outputs_bad_port [OF no_error keys None bad] rendered_def read_trace)
      next
        case (Some n)
        show ?thesis
          by (simp add: process_outputs_dispatched [OF no_error keys None Some] dispatched_def
              send_email_starts_no_node rendered_def read_trace)
      qed
    qed
  qed
qed

lemma rendered_outcomes:
  "deliveries (trace (rendered q a w)) = deliveries (trace w)"
  "reports (trace (rendered q a w)) = reports (trace w)"
  by (simp_all add: rendered_def read_trace)

lemma process_outputs_one_outcome:
  assumes "truthy (error s) \<or> answer s \<noteq> None" and "question s = Some q"
    and "email s = Some em" and "smtp_port_of en = Some n"
  shows "snd (process_outputs en s w) = set_of_empty_dict
         \<and> length (deliveries (trace (fst (process_outputs en s w)))) +
            length (reports (trace (fst (process_outputs en s w)))) =
            length (deliveries (trace w)) + length (reports (trace w)) + 1"
proof (cases "truthy (error s)")
  case True
  then obtain err where "error s = Some err" and "err \<noteq> []"
    by (cases "error s") auto
  then show ?thesis
    by (simp add: process_outputs_interrupted read_trace)
next
  case no_error: False
  with assms(1) obtain a where a: "answer s = Some a"
    by auto
  show ?thesis
  proof (cases "doc_build en ''respuesta_ia.pdf'' (title_of q) (replace_newlines a)")
    case (Some e)
    show ?thesis
      by (simp add: process_outputs_not_rendered [OF no_error a assms(2,3) Some] read_trace)
  next
    case None
    have "length (deliveries (trace (dispatched en em q a w))) +
          length (reports (trace (dispatched en em q a w))) =
          length (deliveries (trace w)) + length (reports (trace w)) + 1"
      unfolding dispatched_def
      by (simp add: send_email_outcome [OF assms(4)] rendered_outcomes)
    then show ?thesis
      by (simp add: process_outputs_dispatched [OF no_error a assms(2,3) None assms(4)] read_trace)
  qed
qed

lemma send_email_success:
  assumes "getenv en ''EMAIL_HOST_USER'' = Some user" and "getenv en ''EMAIL_HOST_PASSWORD'' = Some pw"
    and "user \<noteq> []" and "pw \<noteq> []" and "user \<noteq> ''tu_correo@gmail.com''"
    and "smtp_port_of en = Some port"
    and "files w p = Some d" and "read_error en p = None"
    and "m = \<lparr>mail_from = user, mail_to = r, mail_subject = sub, mail_text = b,
              attachment_name = basename p, attachment_data = d\<rparr>"
    and "smtp en (case getenv en ''EMAIL_HOST'' of None \<Rightarrow> ''smtp.gmail.com'' | Some h \<Rightarrow> h)
           port user pw m = None"
  shows "fst (send_email_with_attachment en r sub b p w) =
     w\<lparr>trace := trace w @
         [Smtp (case getenv en ''EMAIL_HOST'' of None \<Rightarrow> ''smtp.gmail.com'' | Some h \<Rightarrow> h)
            port user pw m,
          Print (''Correo enviado exitosamente a '' @ r @ ''.'')]\<rparr>"
  using assms
  by (simp add: send_email_with_attachment_def smtp_port_of_def io_defs Let_def)

lemma send_email_not_configured:
  assumes "smtp_port_of en = Some n"
    and "\<not> truthy (getenv en ''EMAIL_HOST_USER'') \<or> \<not> truthy (getenv en ''EMAIL_HOST_PASSWORD'')
         \<or> getenv en ''EMAIL_HOST_USER'' = Some ''tu_correo@gmail.com''"
  shows "fst (send_email_with_attachment en r sub b p w) =
     w\<lparr>trace := trace w @
         [Print (CHR 0x0A # ''[ERROR] Credenciales de correo no configuradas en .env.'')]\<rparr>"
  using assms
  by (cases "getenv en ''EMAIL_HOST_USER''"; cases "getenv en ''EMAIL_HOST_PASSWORD''")
    (auto simp add: send_email_with_attachment_def smtp_port_of_def Let_def io_defs)

lemma send_email_unreadable:
  assumes "getenv en ''EMAIL_HOST_USER'' = Some user" and "getenv en ''EMAIL_HOST_PASSWORD'' = Some pw"
    and "user \<noteq> []" and "pw \<noteq> []" and "user \<noteq> ''tu_correo@gmail.com''"
    and "smtp_port_of en = Some port"
    and "files w p = Some d" and "read_error en p = Some e"
  shows "fst (send_email_with_attachment en r sub b p w) =
     w\<lparr>trace := trace w @ [Print (''[ERROR] No se pudo adjuntar el archivo: '' @ e)]\<rparr>"
  using assms
  by (simp add: send_email_with_attachment_def smtp_port_of_def io_defs Let_def)

lemma send_email_refused:
  assumes "getenv en ''EMAIL_HOST_USER'' = Some user" and "getenv en ''EMAIL_HOST_PASSWORD'' = Some pw"
    and "user \<noteq> []" and "pw \<noteq> []" and "user \<noteq> ''tu_correo@gmail.com''"
    and "smtp_port_of en = Some port"
    and "files w p = Some d" and "read_error en p = None"
    and "m = \<lparr>mail_from = user, mail_to = r, mail_subject = sub, mail_text = b,
              attachment_name = basename p, attachment_data = d\<rparr>"
    and "smtp en (case getenv en ''EMAIL_HOST'' of None \<Rightarrow> ''smtp.gmail.com'' | Some h \<Rightarrow> h)
           port user pw m = Some e"
  shows "fst (send_email_with_attachment en r sub b p w) =
     w\<lparr>trace := trace w @
         [Smtp (case getenv en ''EMAIL_HOST'' of None \<Rightarrow> ''smtp.gmail.com'' | Some h \<Rightarrow> h)
            port user pw m,
          Print (''[ERROR] Ocurri'' @ CHR 0xF3 # '' un error al enviar el correo: '' @ e)]\<rparr>"
  using assms
  by (simp add: send_email_with_attachment_def smtp_port_of_def io_defs Let_def)

lemma rendered_delivered:
  "delivered_mails en (trace (rendered q a w)) = delivered_mails en (trace w)"
  "files (rendered q a w) ''respuesta_ia.pdf'' =
     Some \<lparr>doc_title = title_of q, doc_body = replace_newlines a\<rparr>"
  by (simp_all add: rendered_def read_trace)

lemma terminal_world_delivered:
  "delivered_mails en (trace (terminal_world w inp q r rest r1 r2)) = delivered_mails en (trace w)"
  by (simp add: terminal_world_def intent_events_def answer_events_def read_trace
      split: sum.splits)

text \<open>
  Consequences of the set display \<open>{{}}\<close>: the terminal step never returns an update, and
  the main block stops at its argument expression, before the graph is invoked.
\<close>

lemma process_outputs_never_returns:
  "snd (process_outputs en s w) \<noteq> Inr u"
proof (cases "truthy (error s)")
  case True
  then obtain err where "error s = Some err" and "err \<noteq> []"
    by (cases "error s") auto
  then show ?thesis
    by (simp add: process_outputs_interrupted set_of_empty_dict_def)
next
  case no_error: False
  show ?thesis
  proof (cases "answer s = None \<or> question s = None \<or> email s = None")
    case True
    then show ?thesis
      using no_error
      by (cases "error s") (auto simp add: process_outputs_def Let_def split: option.splits)
  next
    case False
    then obtain a q em where keys: "answer s = Some a" "question s = Some q" "email s = Some em"
      by auto
    show ?thesis
    proof (cases "doc_build en ''respuesta_ia.pdf'' (title_of q) (replace_newlines a)")
      case (Some e)
      show ?thesis
        by (simp add: process_outputs_not_rendered [OF no_error keys Some] set_of_empty_dict_def)
    next
      case None
      show ?thesis
      proof (cases "smtp_port_of en")
        case bad: None
        show ?thesis
          by (simp add: process_outputs_bad_port [OF no_error keys None bad])
      next
        case (Some n)
        show ?thesis
          by (simp add: process_outputs_dispatched [OF no_error keys None Some]
              set_of_empty_dict_def)
      qed
    qed
  qed
qed

lemma main_block_stops_at_its_argument:
  "truthy (getenv en ''GITHUB_TOKEN'') \<Longrightarrow>
   module_main en w = (w, Inl (TypeError (''unhashable type: 'dict'' @ [CHR 0x27])))"
  by (simp add: module_main_def set_of_empty_dict_def)

subsection \<open>Steps after a failed analysis (claim C1)\<close>

text \<open>
  Claim C1 says that once a step has set the error no further step but the terminal one
  runs, so that after a failed analysis no answer is requested and \<open>answer\<close> stays empty.
  The edges are unconditional. In the run below the first request fails: all four nodes
  start, \<open>generate_answer\<close> starts on a state whose error is set and sends the question to
  the model, and the terminal step starts on a state whose answer is \<open>4\<close>.
\<close>

theorem answer_generated_after_failed_analysis:
  "started_nodes (trace (fst (invoke intent_failure_env empty_state scenario_world))) =
     [GetUserData, AnalyzeIntention, GenerateAnswer, ProcessOutputs]
   \<and> llm_requests (trace (fst (invoke intent_failure_env empty_state scenario_world))) =
     [''Analiza y resume en una sola frase la intenci'' @ CHR 0xF3 #
      ''n principal de la siguiente pregunta: 'What is 2+2?'' @ [CHR 0x27],
      ''What is 2+2?'']
   \<and> map error (states_at GenerateAnswer
        (trace (fst (invoke intent_failure_env empty_state scenario_world)))) =
     [Some (''Error analizando la intenci'' @ CHR 0xF3 # ''n: timeout'')]
   \<and> map answer (states_at ProcessOutputs
        (trace (fst (invoke intent_failure_env empty_state scenario_world)))) = [Some ''4'']"
  by (simp add: model_defs scenario_defs intent_failure_env_def read_trace)

text \<open>
  Claim C1, amended. If both inputs are read and the request of the analysis step fails,
  the four nodes still start in order and both requests are sent; \<open>answer\<close> is set to the
  second reply if there is one; the terminal step reports the error (that of the
  analysis, or that of the answer step if it failed too) and makes no call of
  \<open>create_pdf\<close>, opens no SMTP session and removes no file.
\<close>

theorem failed_analysis_stops_delivery_only:
  assumes "stdin w = q # r # rest"
    and "llm_invoke en (length (filter is_llm_invoke (trace w)))
           (''Analiza y resume en una sola frase la intenci'' @ CHR 0xF3 #
            ''n principal de la siguiente pregunta: '' @ CHR 0x27 # q @ [CHR 0x27]) = Inl d"
  shows "started_nodes (trace (fst (invoke en inp w))) =
           started_nodes (trace w) @ [GetUserData, AnalyzeIntention, GenerateAnswer, ProcessOutputs]
         \<and> llm_requests (trace (fst (invoke en inp w))) =
           llm_requests (trace w) @
             [''Analiza y resume en una sola frase la intenci'' @ CHR 0xF3 #
              ''n principal de la siguiente pregunta: '' @ CHR 0x27 # q @ [CHR 0x27], q]
         \<and> map answer (states_at ProcessOutputs (trace (fst (invoke en inp w)))) =
           map answer (states_at ProcessOutputs (trace w)) @
             [case llm_invoke en (Suc (length (filter is_llm_invoke (trace w)))) q of
                Inr a \<Rightarrow> Some a | Inl e \<Rightarrow> answer inp]
         \<and> reports (trace (fst (invoke en inp w))) =
           reports (trace w) @
             [CHR 0x0A # ''[PROCESO INTERRUMPIDO] '' @
              (case llm_invoke en (Suc (length (filter is_llm_invoke (trace w)))) q of
                 Inr a \<Rightarrow> ''Error analizando la intenci'' @ CHR 0xF3 # ''n: '' @ d
               | Inl e \<Rightarrow> ''Error generando la respuesta: '' @ e)]
         \<and> pdf_calls (trace (fst (invoke en inp w))) = pdf_calls (trace w)
         \<and> sent_mails (trace (fst (invoke en inp w))) = sent_mails (trace w)
         \<and> removed_paths (trace (fst (invoke en inp w))) = removed_paths (trace w)"
proof -
  let ?r2 = "llm_invoke en (Suc (length (filter is_llm_invoke (trace w)))) q"
  let ?s = "terminal_state inp q r (Inl d) ?r2"
  let ?err = "case ?r2 of
                 Inr a \<Rightarrow> ''Error analizando la intenci'' @ CHR 0xF3 # ''n: '' @ d
               | Inl e \<Rightarrow> ''Error generando la respuesta: '' @ e"
  have r1: "llm_invoke en (length (filter is_llm_invoke (trace w))) (intent_prompt q) = Inl d"
    using assms(2) by (simp add: intent_prompt_def)
  have e: "error ?s = Some ?err" "?err \<noteq> []"
    by (simp_all add: terminal_state_fields split: sum.splits)
  have w: "fst (invoke en inp w) =
             (terminal_world w inp q r rest (Inl d) ?r2)
               \<lparr>trace := trace (terminal_world w inp q r rest (Inl d) ?r2) @
                  [Print ''Procesando salidas finales...'',
                   Print (CHR 0x0A # ''[PROCESO INTERRUMPIDO] '' @ ?err)]\<rparr>"
    by (simp add: invoke_world [OF assms(1)] r1 process_outputs_interrupted [OF e])
  show ?thesis
    unfolding w
    by (simp add: terminal_world_observed terminal_state_fields read_trace intent_prompt_def)
qed

text \<open>The theorem in scenario A with a model that fails on the first request.\<close>

theorem failed_analysis_stops_delivery_only_witness:
  "stdin scenario_world = ''What is 2+2?'' # ''a@b.com'' # []
   \<and> llm_invoke intent_failure_env (length (filter is_llm_invoke (trace scenario_world)))
        (''Analiza y resume en una sola frase la intenci'' @ CHR 0xF3 #
         ''n principal de la siguiente pregunta: '' @ CHR 0x27 # ''What is 2+2?'' @ [CHR 0x27]) =
        Inl ''timeout''
   \<and> started_nodes (trace (fst (invoke intent_failure_env empty_state scenario_world))) =
        [GetUserData, AnalyzeIntention, GenerateAnswer, ProcessOutputs]
   \<and> map answer (states_at ProcessOutputs
        (trace (fst (invoke intent_failure_env empty_state scenario_world)))) = [Some ''4'']
   \<and> reports (trace (fst (invoke intent_failure_env empty_state scenario_world))) =
        [CHR 0x0A # ''[PROCESO INTERRUMPIDO] Error analizando la intenci'' @ CHR 0xF3 # ''n: timeout'']
   \<and> pdf_calls (trace (fst (invoke intent_failure_env empty_state scenario_world))) = []
   \<and> sent_mails (trace (fst (invoke intent_failure_env empty_state scenario_world))) = []
   \<and> removed_paths (trace (fst (invoke intent_failure_env empty_state scenario_world))) = []"
proof -
  have i: "stdin scenario_world = ''What is 2+2?'' # ''a@b.com'' # []"
    by (simp add: scenario_world_def)
  have f: "llm_invoke intent_failure_env (length (filter is_llm_invoke (trace scenario_world)))
        (''Analiza y resume en una sola frase la intenci'' @ CHR 0xF3 #
         ''n principal de la siguiente pregunta: '' @ CHR 0x27 # ''What is 2+2?'' @ [CHR 0x27]) =
        Inl ''timeout''"
    by (simp add: intent_failure_env_def scenario_world_def)
  show ?thesis
    using i f failed_analysis_stops_delivery_only [OF i f, of empty_state]
    by (simp add: intent_failure_env_def scenario_world_def read_trace)
qed

subsection \<open>How a run ends (claim C2)\<close>

text \<open>
  Claim C2 says that every run completes without an unhandled exception and shows
  exactly one outcome. \<open>get_user_data\<close> reads its input outside any \<open>try\<close>: when standard
  input is closed the invocation ends with \<open>EOFError\<close> in the first node, and neither a
  delivery nor a failure report has been printed.
\<close>

theorem closed_input_ends_without_outcome:
  "snd (invoke scenario_env empty_state no_input_world) = Inl (EOFError ''EOF when reading a line'')
   \<and> started_nodes (trace (fst (invoke scenario_env empty_state no_input_world))) = [GetUserData]
   \<and> deliveries (trace (fst (invoke scenario_env empty_state no_input_world))) = []
   \<and> reports (trace (fst (invoke scenario_env empty_state no_input_world))) = []"
  by (simp add: model_defs scenario_defs no_input_world_def read_trace)

text \<open>
  Claim C2, amended. In every invocation of the graph in which both inputs are read and
  \<open>EMAIL_PORT\<close> is absent or converts to an integer, the terminal step starts once and
  the run has exactly one outcome, which is decided as follows. Either the mail with the
  rendered answer attached is accepted by the SMTP session, the line of a sent mail is
  printed and no failure is reported: this happens exactly when the state carries no
  error, the rendering succeeds, address and password are configured, the attachment is
  read and the session raises nothing. Or no mail is accepted, no such line is printed
  and exactly one failure is reported with its reason: the error of the state, the
  exception of the renderer, the missing credentials, the exception of the attachment or
  the exception of the session. Here \<open>D\<close> are the accepted mails, \<open>L\<close> the lines of sent
  mails and \<open>R\<close> the reports that the invocation adds. The invocation does not end with
  \<open>EOFError\<close>, \<open>KeyError\<close>, \<open>ValueError\<close> or \<open>FileNotFoundError\<close>.
\<close>

theorem exactly_one_outcome:
  assumes "stdin w = q # r # rest" and "smtp_port_of en = Some n"
  shows "\<exists>s D L R.
      states_at ProcessOutputs (trace (fst (invoke en inp w))) =
        states_at ProcessOutputs (trace w) @ [s]
    \<and> delivered_mails en (trace (fst (invoke en inp w))) = delivered_mails en (trace w) @ D
    \<and> deliveries (trace (fst (invoke en inp w))) = deliveries (trace w) @ L
    \<and> reports (trace (fst (invoke en inp w))) = reports (trace w) @ R
    \<and> ((D = [] \<and> L = [] \<and> length R = 1) \<or> (length D = 1 \<and> length L = 1 \<and> R = []))
    \<and> ((\<exists>err. error s = Some err \<and> err \<noteq> [] \<and> D = [] \<and> L = []
              \<and> R = [CHR 0x0A # ''[PROCESO INTERRUMPIDO] '' @ err])
       \<or> (\<not> truthy (error s) \<and>
           (\<exists>a. answer s = Some a \<and>
             ((\<exists>e. doc_build en ''respuesta_ia.pdf'' (''Respuesta a: '' @ take 40 q @ ''...'')
                      (replace_newlines a) = Some e
                   \<and> D = [] \<and> L = [] \<and> R = [''[ERROR] No se pudo crear el PDF: '' @ e])
            \<or> (doc_build en ''respuesta_ia.pdf'' (''Respuesta a: '' @ take 40 q @ ''...'')
                      (replace_newlines a) = None \<and>
                (((\<not> truthy (getenv en ''EMAIL_HOST_USER'')
                     \<or> \<not> truthy (getenv en ''EMAIL_HOST_PASSWORD'')
                     \<or> getenv en ''EMAIL_HOST_USER'' = Some ''tu_correo@gmail.com'')
                   \<and> D = [] \<and> L = []
                   \<and> R = [CHR 0x0A # ''[ERROR] Credenciales de correo no configuradas en .env.''])
               \<or> (\<exists>user pw m.
                     getenv en ''EMAIL_HOST_USER'' = Some user
                   \<and> getenv en ''EMAIL_HOST_PASSWORD'' = Some pw
                   \<and> user \<noteq> [] \<and> pw \<noteq> [] \<and> user \<noteq> ''tu_correo@gmail.com''
                   \<and> m = \<lparr>mail_from = user, mail_to = r,
                           mail_subject = ''Respuesta a tu pregunta: '' @ CHR 0x27 #
                                          take 30 q @ ''...'' @ [CHR 0x27],
                           mail_text = ''Hola,'' @ CHR 0x0A # CHR 0x0A #
                             ''Adjunto encontrar'' @ CHR 0xE1 #
                             ''s la respuesta generada por la IA a tu pregunta.'' @
                             CHR 0x0A # CHR 0x0A # ''Saludos.'',
                           attachment_name = ''respuesta_ia.pdf'',
                           attachment_data =
                             \<lparr>doc_title = ''Respuesta a: '' @ take 40 q @ ''...'',
                              doc_body = replace_newlines a\<rparr>\<rparr>
                   \<and> ((\<exists>e. read_error en ''respuesta_ia.pdf'' = Some e
                           \<and> D = [] \<and> L = []
                           \<and> R = [''[ERROR] No se pudo adjuntar el archivo: '' @ e])
                      \<or> (read_error en ''respuesta_ia.pdf'' = None \<and>
                          ((\<exists>e. smtp en (case getenv en ''EMAIL_HOST'' of
                                            None \<Rightarrow> ''smtp.gmail.com'' | Some h \<Rightarrow> h)
                                   n user pw m = Some e
                                \<and> D = [] \<and> L = []
                                \<and> R = [''[ERROR] Ocurri'' @ CHR 0xF3 #
                                       '' un error al enviar el correo: '' @ e])
                         \<or> (smtp en (case getenv en ''EMAIL_HOST'' of
                                        None \<Rightarrow> ''smtp.gmail.com'' | Some h \<Rightarrow> h)
                               n user pw m = None
                            \<and> D = [m]
                            \<and> L = [''Correo enviado exitosamente a '' @ r @ ''.'']
                            \<and> R = [])))))))))))
    \<and> (\<forall>x. snd (invoke en inp w) \<noteq> Inl (EOFError x) \<and> snd (invoke en inp w) \<noteq> Inl (KeyError x)
           \<and> snd (invoke en inp w) \<noteq> Inl (ValueError x)
           \<and> snd (invoke en inp w) \<noteq> Inl (FileNotFoundError x))"
proof -
  let ?r1 = "llm_invoke en (length (filter is_llm_invoke (trace w))) (intent_prompt q)"
  let ?r2 = "llm_invoke en (Suc (length (filter is_llm_invoke (trace w)))) q"
  let ?s = "terminal_state inp q r ?r1 ?r2"
  let ?tw = "terminal_world w inp q r rest ?r1 ?r2"
  let ?host = "case getenv en ''EMAIL_HOST'' of None \<Rightarrow> ''smtp.gmail.com'' | Some h \<Rightarrow> h"
  have k: "truthy (error ?s) \<or> answer ?s \<noteq> None" "question ?s = Some q" "email ?s = Some r"
    by (simp_all add: terminal_state_fields split: sum.splits)
  have W: "fst (invoke en inp w) = fst (process_outputs en ?s ?tw)"
    by (rule invoke_world [OF assms(1)])
  note base = terminal_world_observed [of w inp q r rest ?r1 ?r2]
    terminal_world_delivered [of en w inp q r rest ?r1 ?r2]
  have st: "states_at ProcessOutputs (trace (fst (invoke en inp w))) =
              states_at ProcessOutputs (trace w) @ [?s]"
    by (simp add: W process_outputs_starts_no_node base)
  have res: "\<forall>x. snd (invoke en inp w) \<noteq> Inl (EOFError x) \<and> snd (invoke en inp w) \<noteq> Inl (KeyError x)
                \<and> snd (invoke en inp w) \<noteq> Inl (ValueError x)
                \<and> snd (invoke en inp w) \<noteq> Inl (FileNotFoundError x)"
    using process_outputs_one_outcome [OF k assms(2), of ?tw]
    by (simp add: invoke_result [OF assms(1)] set_of_empty_dict_def)
  show ?thesis
  proof (cases "truthy (error ?s)")
    case True
    then obtain err where err: "error ?s = Some err" "err \<noteq> []"
      by (cases "error ?s") auto
    have "fst (invoke en inp w) =
            ?tw\<lparr>trace := trace ?tw @ [Print ''Procesando salidas finales...'',
                   Print (CHR 0x0A # ''[PROCESO INTERRUMPIDO] '' @ err)]\<rparr>"
      by (simp add: W process_outputs_interrupted [OF err])
    then have o: "delivered_mails en (trace (fst (invoke en inp w))) = delivered_mails en (trace w) @ []"
      "deliveries (trace (fst (invoke en inp w))) = deliveries (trace w) @ []"
      "reports (trace (fst (invoke en inp w))) =
         reports (trace w) @ [CHR 0x0A # ''[PROCESO INTERRUMPIDO] '' @ err]"
      by (simp_all add: base read_trace)
    show ?thesis
      apply (rule exI [of _ ?s], rule exI [of _ "[]"], rule exI [of _ "[]"],
          rule exI [of _ "[CHR 0x0A # ''[PROCESO INTERRUMPIDO] '' @ err]"])
      apply (intro conjI st o res)
       apply simp
      apply (rule disjI1)
      apply (simp add: err)
      done
  next
    case no_error: False
    with k(1) obtain a where a: "answer ?s = Some a"
      by auto
    show ?thesis
    proof (cases "doc_build en ''respuesta_ia.pdf'' (''Respuesta a: '' @ take 40 q @ ''...'')
                    (replace_newlines a)")
      case (Some e)
      then have "doc_build en ''respuesta_ia.pdf'' (title_of q) (replace_newlines a) = Some e"
        by (simp add: title_of_def)
      from process_outputs_not_rendered [OF no_error a k(2,3) this, of ?tw]
      have o: "delivered_mails en (trace (fst (invoke en inp w))) = delivered_mails en (trace w) @ []"
        "deliveries (trace (fst (invoke en inp w))) = deliveries (trace w) @ []"
        "reports (trace (fst (invoke en inp w))) =
           reports (trace w) @ [''[ERROR] No se pudo crear el PDF: '' @ e]"
        by (simp_all add: W base read_trace)
      show ?thesis
        apply (rule exI [of _ ?s], rule exI [of _ "[]"], rule exI [of _ "[]"],
            rule exI [of _ "[''[ERROR] No se pudo crear el PDF: '' @ e]"])
        apply (intro conjI st o res)
         apply simp
        apply (rule disjI2)
        using Some apply (simp add: no_error a)
        done
    next
      case None
      then have built: "doc_build en ''respuesta_ia.pdf'' (title_of q) (replace_newlines a) = None"
        by (simp add: title_of_def)
      let ?rw = "rendered q a ?tw"
      let ?d = "dispatched en r q a ?tw"
      have d: "?d = fst (send_email_with_attachment en r (subject_of q) greeting
                           ''respuesta_ia.pdf'' ?rw)"
        by (simp add: dispatched_def)
      from process_outputs_dispatched [OF no_error a k(2,3) built assms(2), of ?tw]
      have after: "delivered_mails en (trace (fst (invoke en inp w))) = delivered_mails en (trace ?d)"
        "deliveries (trace (fst (invoke en inp w))) = deliveries (trace ?d)"
        "reports (trace (fst (invoke en inp w))) = reports (trace ?d)"
        by (simp_all add: W read_trace)
      have before: "delivered_mails en (trace ?rw) = delivered_mails en (trace w)"
        "deliveries (trace ?rw) = deliveries (trace w)"
        "reports (trace ?rw) = reports (trace w)"
        by (simp_all add: rendered_delivered rendered_outcomes base)
      have pdf: "files ?rw ''respuesta_ia.pdf'' =
                    Some \<lparr>doc_title = title_of q, doc_body = replace_newlines a\<rparr>"
        by (rule rendered_delivered)
      show ?thesis
      proof (cases "\<not> truthy (getenv en ''EMAIL_HOST_USER'')
                     \<or> \<not> truthy (getenv en ''EMAIL_HOST_PASSWORD'')
                     \<or> getenv en ''EMAIL_HOST_USER'' = Some ''tu_correo@gmail.com''")
        case True
        from send_email_not_configured [OF assms(2) True, of r "subject_of q" greeting
            "''respuesta_ia.pdf''" ?rw]
        have o: "delivered_mails en (trace (fst (invoke en inp w))) = delivered_mails en (trace w) @ []"
          "deliveries (trace (fst (invoke en inp w))) = deliveries (trace w) @ []"
          "reports (trace (fst (invoke en inp w))) =
             reports (trace w) @
               [CHR 0x0A # ''[ERROR] Credenciales de correo no configuradas en .env.'']"
          by (simp_all add: after d before read_trace)
        show ?thesis
          apply (rule exI [of _ ?s], rule exI [of _ "[]"], rule exI [of _ "[]"],
              rule exI [of _ "[CHR 0x0A # ''[ERROR] Credenciales de correo no configuradas en .env.'']"])
          apply (intro conjI st o res)
           apply simp
          apply (rule disjI2)
          using True None apply (simp add: no_error a)
          done
      next
        case False
        then obtain user pw where c: "getenv en ''EMAIL_HOST_USER'' = Some user"
          "getenv en ''EMAIL_HOST_PASSWORD'' = Some pw" "user \<noteq> []" "pw \<noteq> []"
          "user \<noteq> ''tu_correo@gmail.com''"
          by (cases "getenv en ''EMAIL_HOST_USER''"; cases "getenv en ''EMAIL_HOST_PASSWORD''") auto
        let ?m = "\<lparr>mail_from = user, mail_to = r,
                           mail_subject = ''Respuesta a tu pregunta: '' @ CHR 0x27 #
                                          take 30 q @ ''...'' @ [CHR 0x27],
                           mail_text = ''Hola,'' @ CHR 0x0A # CHR 0x0A #
                             ''Adjunto encontrar'' @ CHR 0xE1 #
                             ''s la respuesta generada por la IA a tu pregunta.'' @
                             CHR 0x0A # CHR 0x0A # ''Saludos.'',
                           attachment_name = ''respuesta_ia.pdf'',
                           attachment_data =
                             \<lparr>doc_title = ''Respuesta a: '' @ take 40 q @ ''...'',
                              doc_body = replace_newlines a\<rparr>\<rparr>"
        have m: "?m = \<lparr>mail_from = user, mail_to = r, mail_subject = subject_of q,
                       mail_text = greeting, attachment_name = basename ''respuesta_ia.pdf'',
                       attachment_data = \<lparr>doc_title = title_of q, doc_body = replace_newlines a\<rparr>\<rparr>"
          by (simp add: subject_of_def greeting_def basename_def title_of_def)
        show ?thesis
        proof (cases "read_error en ''respuesta_ia.pdf''")
          case (Some e)
          from send_email_unreadable [OF c assms(2) pdf Some, of r "subject_of q" greeting]
          have o: "delivered_mails en (trace (fst (invoke en inp w))) = delivered_mails en (trace w) @ []"
            "deliveries (trace (fst (invoke en inp w))) = deliveries (trace w) @ []"
            "reports (trace (fst (invoke en inp w))) =
               reports (trace w) @ [''[ERROR] No se pudo adjuntar el archivo: '' @ e]"
            by (simp_all add: after d before read_trace)
          show ?thesis
            apply (rule exI [of _ ?s], rule exI [of _ "[]"], rule exI [of _ "[]"],
                rule exI [of _ "[''[ERROR] No se pudo adjuntar el archivo: '' @ e]"])
            apply (intro conjI st o res)
             apply simp
            apply (rule disjI2)
            using None Some apply (simp add: no_error a c)
            done
        next
          case readable: None
          show ?thesis
          proof (cases "smtp en ?host n user pw ?m")
            case (Some e)
            from send_email_refused [OF c assms(2) pdf readable m Some]
            have o: "delivered_mails en (trace (fst (invoke en inp w))) =
                       delivered_mails en (trace w) @ []"
              "deliveries (trace (fst (invoke en inp w))) = deliveries (trace w) @ []"
              "reports (trace (fst (invoke en inp w))) =
                 reports (trace w) @
                   [''[ERROR] Ocurri'' @ CHR 0xF3 # '' un error al enviar el correo: '' @ e]"
              using Some by (simp_all add: after d before read_trace)
            show ?thesis
              apply (rule exI [of _ ?s], rule exI [of _ "[]"], rule exI [of _ "[]"],
                  rule exI [of _ "[''[ERROR] Ocurri'' @ CHR 0xF3 #
                                   '' un error al enviar el correo: '' @ e]"])
              apply (intro conjI st o res)
               apply simp
              apply (rule disjI2)
              using None Some apply (simp add: no_error a c readable)
              done
          next
            case sent: None
            from send_email_success [OF c assms(2) pdf readable m sent]
            have o: "delivered_mails en (trace (fst (invoke en inp w))) =
                       delivered_mails en (trace w) @ [?m]"
              "deliveries (trace (fst (invoke en inp w))) =
                 deliveries (trace w) @ [''Correo enviado exitosamente a '' @ r @ ''.'']"
              "reports (trace (fst (invoke en inp w))) = reports (trace w) @ []"
              using sent by (simp_all add: after d before read_trace)
            show ?thesis
              apply (rule exI [of _ ?s], rule exI [of _ "[?m]"],
                  rule exI [of _ "[''Correo enviado exitosamente a '' @ r @ ''.'']"],
                  rule exI [of _ "[]"])
              apply (intro conjI st o res)
               apply simp
              apply (rule disjI2)
              using None sent apply (simp add: no_error a c readable)
              done
          qed
        qed
      qed
    qed
  qed
qed

text \<open>
  The theorem in scenario A (the mail is accepted) and with an unreachable SMTP server
  (the failure of the session is reported and no mail is accepted).
\<close>

theorem exactly_one_outcome_witness:
  "stdin scenario_world = ''What is 2+2?'' # ''a@b.com'' # [] \<and> smtp_port_of scenario_env = Some 587
   \<and> smtp_port_of smtp_down_env = Some 587
   \<and> delivered_mails scenario_env (trace (fst (invoke scenario_env empty_state scenario_world))) =
       [\<lparr>mail_from = ''bot@example.org'', mail_to = ''a@b.com'',
         mail_subject = ''Respuesta a tu pregunta: 'What is 2+2?...'' @ [CHR 0x27],
         mail_text = ''Hola,'' @ CHR 0x0A # CHR 0x0A # ''Adjunto encontrar'' @ CHR 0xE1 #
           ''s la respuesta generada por la IA a tu pregunta.'' @ CHR 0x0A # CHR 0x0A # ''Saludos.'',
         attachment_name = ''respuesta_ia.pdf'',
         attachment_data = \<lparr>doc_title = ''Respuesta a: What is 2+2?...'', doc_body = ''4''\<rparr>\<rparr>]
   \<and> deliveries (trace (fst (invoke scenario_env empty_state scenario_world))) =
       [''Correo enviado exitosamente a a@b.com.'']
   \<and> reports (trace (fst (invoke scenario_env empty_state scenario_world))) = []
   \<and> delivered_mails smtp_down_env (trace (fst (invoke smtp_down_env empty_state scenario_world))) = []
   \<and> deliveries (trace (fst (invoke smtp_down_env empty_state scenario_world))) = []
   \<and> reports (trace (fst (invoke smtp_down_env empty_state scenario_world))) =
       [''[ERROR] Ocurri'' @ CHR 0xF3 # '' un error al enviar el correo: connection refused'']"
proof -
  have i: "stdin scenario_world = ''What is 2+2?'' # ''a@b.com'' # []"
    by (simp add: scenario_world_def)
  have p: "smtp_port_of scenario_env = Some 587" "smtp_port_of smtp_down_env = Some 587"
    by (simp_all add: smtp_port_of_def scenario_env_def scenario_getenv_def smtp_down_env_def)
  have d: "delivered_mails scenario_env (trace (fst (invoke scenario_env empty_state scenario_world))) =
       [\<lparr>mail_from = ''bot@example.org'', mail_to = ''a@b.com'',
         mail_subject = ''Respuesta a tu pregunta: 'What is 2+2?...'' @ [CHR 0x27],
         mail_text = ''Hola,'' @ CHR 0x0A # CHR 0x0A # ''Adjunto encontrar'' @ CHR 0xE1 #
           ''s la respuesta generada por la IA a tu pregunta.'' @ CHR 0x0A # CHR 0x0A # ''Saludos.'',
         attachment_name = ''respuesta_ia.pdf'',
         attachment_data = \<lparr>doc_title = ''Respuesta a: What is 2+2?...'', doc_body = ''4''\<rparr>\<rparr>]"
    "deliveries (trace (fst (invoke scenario_env empty_state scenario_world))) =
       [''Correo enviado exitosamente a a@b.com.'']"
    "reports (trace (fst (invoke scenario_env empty_state scenario_world))) = []"
    "delivered_mails smtp_down_env (trace (fst (invoke smtp_down_env empty_state scenario_world))) = []"
    "deliveries (trace (fst (invoke smtp_down_env empty_state scenario_world))) = []"
    "reports (trace (fst (invoke smtp_down_env empty_state scenario_world))) =
       [''[ERROR] Ocurri'' @ CHR 0xF3 # '' un error al enviar el correo: connection refused'']"
    by (simp_all add: model_defs scenario_defs smtp_down_env_def read_trace)
  from exactly_one_outcome [OF i p(1), of empty_state]
    exactly_one_outcome [OF i p(2), of empty_state]
  show ?thesis
    using i p d by blast
qed

subsection \<open>The state at the terminal step (claim C3)\<close>

text \<open>
  Claim C3 says that at the terminal step exactly one of these holds: the error is set,
  or the answer is set and not empty. After a failed analysis and a successful answer
  both hold; after two successful requests of which the second returns the empty string,
  neither holds.
\<close>

theorem error_and_answer_both_or_neither:
  "states_at ProcessOutputs (trace (fst (invoke intent_failure_env empty_state scenario_world))) =
     [\<lparr>question = Some ''What is 2+2?'', email = Some ''a@b.com'', intention = None,
       answer = Some ''4'',
       error = Some (''Error analizando la intenci'' @ CHR 0xF3 # ''n: timeout'')\<rparr>]
   \<and> states_at ProcessOutputs (trace (fst (invoke empty_answer_env empty_state scenario_world))) =
     [\<lparr>question = Some ''What is 2+2?'', email = Some ''a@b.com'',
       intention = Some ''Arithmetic question'', answer = Some [], error = None\<rparr>]"
  by (simp add: model_defs scenario_defs intent_failure_env_def empty_answer_env_def read_trace)

text \<open>
  Claim C3, amended. In every invocation in which both inputs are read, the terminal
  step starts exactly once, on a state in which the error is set and not empty, or the
  answer is set (possibly to the empty string), or both.
\<close>

theorem terminal_step_sees_error_or_answer:
  assumes "stdin w = q # r # rest"
  shows "\<exists>s. states_at ProcessOutputs (trace (fst (invoke en inp w))) =
               states_at ProcessOutputs (trace w) @ [s]
             \<and> (truthy (error s) \<or> answer s \<noteq> None)"
proof -
  let ?r1 = "llm_invoke en (length (filter is_llm_invoke (trace w))) (intent_prompt q)"
  let ?r2 = "llm_invoke en (Suc (length (filter is_llm_invoke (trace w)))) q"
  have "states_at ProcessOutputs (trace (fst (invoke en inp w))) =
          states_at ProcessOutputs (trace w) @ [terminal_state inp q r ?r1 ?r2]"
    by (simp add: invoke_world [OF assms] process_outputs_starts_no_node terminal_world_observed)
  moreover have "truthy (error (terminal_state inp q r ?r1 ?r2))
                 \<or> answer (terminal_state inp q r ?r1 ?r2) \<noteq> None"
    by (simp add: terminal_state_fields split: sum.splits)
  ultimately show ?thesis
    by blast
qed

text \<open>The theorem in scenario A.\<close>

theorem terminal_step_sees_error_or_answer_witness:
  "stdin scenario_world = ''What is 2+2?'' # ''a@b.com'' # []
   \<and> (\<exists>s. states_at ProcessOutputs (trace (fst (invoke scenario_env empty_state scenario_world))) =
              states_at ProcessOutputs (trace scenario_world) @ [s]
            \<and> (truthy (error s) \<or> answer s \<noteq> None))"
proof -
  have i: "stdin scenario_world = ''What is 2+2?'' # ''a@b.com'' # []"
    by (simp add: scenario_world_def)
  show ?thesis
    using i terminal_step_sees_error_or_answer [OF i, of scenario_env empty_state]
    by simp
qed

subsection \<open>Scenario A from end to end (claim C4)\<close>

text \<open>
  Claim C4 says that in scenario A the body of the dispatched mail is exactly \<open>4\<close>. The
  text of the mail is a fixed greeting; the answer travels in the attached document.
\<close>

theorem scenario_mail_text_is_greeting:
  "map mail_text (sent_mails (trace (fst (invoke scenario_env empty_state scenario_world)))) =
     [''Hola,'' @ CHR 0x0A # CHR 0x0A # ''Adjunto encontrar'' @ CHR 0xE1 #
      ''s la respuesta generada por la IA a tu pregunta.'' @ CHR 0x0A # CHR 0x0A # ''Saludos.'']
   \<and> map mail_text (sent_mails (trace (fst (invoke scenario_env empty_state scenario_world)))) \<noteq>
     [''4'']
   \<and> deliveries (trace (fst (invoke scenario_env empty_state scenario_world))) =
     [''Correo enviado exitosamente a a@b.com.'']"
  by (simp add: model_defs scenario_defs read_trace)

text \<open>
  Claim C4, amended. In scenario A, with address and password configured, a renderer,
  a readable attachment and an SMTP session that succeed, one mail is handed to the SMTP
  session and reported as sent: it goes to \<open>a@b.com\<close>, its subject is
  \<open>Respuesta a tu pregunta: 'What is 2+2?...'\<close>, its text is the fixed greeting, and its
  attachment \<open>respuesta_ia.pdf\<close> is the document with the title
  \<open>Respuesta a: What is 2+2?...\<close> and the body \<open>4\<close>. No failure is reported.
\<close>

theorem scenario_A_delivered:
  assumes "stdin w = ''What is 2+2?'' # ''a@b.com'' # rest"
    and "llm_invoke en (length (filter is_llm_invoke (trace w)))
           (''Analiza y resume en una sola frase la intenci'' @ CHR 0xF3 #
            ''n principal de la siguiente pregunta: 'What is 2+2?'' @ [CHR 0x27]) =
           Inr ''Arithmetic question''"
    and "llm_invoke en (Suc (length (filter is_llm_invoke (trace w)))) ''What is 2+2?'' = Inr ''4''"
    and "doc_build en ''respuesta_ia.pdf'' ''Respuesta a: What is 2+2?...'' ''4'' = None"
    and "getenv en ''EMAIL_HOST_USER'' = Some user" and "getenv en ''EMAIL_HOST_PASSWORD'' = Some pw"
    and "user \<noteq> []" and "pw \<noteq> []" and "user \<noteq> ''tu_correo@gmail.com''"
    and "smtp_port_of en = Some port"
    and "read_error en ''respuesta_ia.pdf'' = None"
    and "m = \<lparr>mail_from = user, mail_to = ''a@b.com'',
              mail_subject = ''Respuesta a tu pregunta: 'What is 2+2?...'' @ [CHR 0x27],
              mail_text = ''Hola,'' @ CHR 0x0A # CHR 0x0A # ''Adjunto encontrar'' @ CHR 0xE1 #
                ''s la respuesta generada por la IA a tu pregunta.'' @ CHR 0x0A # CHR 0x0A #
                ''Saludos.'',
              attachment_name = ''respuesta_ia.pdf'',
              attachment_data = \<lparr>doc_title = ''Respuesta a: What is 2+2?...'', doc_body = ''4''\<rparr>\<rparr>"
    and "smtp en (case getenv en ''EMAIL_HOST'' of None \<Rightarrow> ''smtp.gmail.com'' | Some h \<Rightarrow> h)
           port user pw m = None"
  shows "sent_mails (trace (fst (invoke en empty_state w))) = sent_mails (trace w) @ [m]
         \<and> deliveries (trace (fst (invoke en empty_state w))) =
             deliveries (trace w) @ [''Correo enviado exitosamente a a@b.com.'']
         \<and> reports (trace (fst (invoke en empty_state w))) = reports (trace w)
         \<and> pdf_calls (trace (fst (invoke en empty_state w))) =
             pdf_calls (trace w) @ [(''Respuesta a: What is 2+2?...'', ''4'', ''respuesta_ia.pdf'')]"
proof -
  let ?s = "terminal_state empty_state ''What is 2+2?'' ''a@b.com'' (Inr ''Arithmetic question'')
              (Inr ''4'')"
  let ?w = "terminal_world w empty_state ''What is 2+2?'' ''a@b.com'' rest
              (Inr ''Arithmetic question'') (Inr ''4'')"
  have r1: "llm_invoke en (length (filter is_llm_invoke (trace w))) (intent_prompt ''What is 2+2?'') =
              Inr ''Arithmetic question''"
    using assms(2) by (simp add: intent_prompt_def)
  have k: "\<not> truthy (error ?s)" "answer ?s = Some ''4''" "question ?s = Some ''What is 2+2?''"
    "email ?s = Some ''a@b.com''"
    by (simp_all add: terminal_state_fields empty_state_def)
  have b: "doc_build en ''respuesta_ia.pdf'' (title_of ''What is 2+2?'') (replace_newlines ''4'') = None"
    using assms(4) by (simp add: title_of_def replace_newlines_def)
  have f: "files (rendered ''What is 2+2?'' ''4'' ?w) ''respuesta_ia.pdf'' =
             Some \<lparr>doc_title = ''Respuesta a: What is 2+2?...'', doc_body = ''4''\<rparr>"
    by (simp add: rendered_def title_of_def replace_newlines_def)
  have m: "m = \<lparr>mail_from = user, mail_to = ''a@b.com'',
              mail_subject = subject_of ''What is 2+2?'', mail_text = greeting,
              attachment_name = basename ''respuesta_ia.pdf'',
              attachment_data = \<lparr>doc_title = ''Respuesta a: What is 2+2?...'', doc_body = ''4''\<rparr>\<rparr>"
    using assms(12) by (simp add: subject_of_def greeting_def basename_def)
  have d: "dispatched en ''a@b.com'' ''What is 2+2?'' ''4'' ?w =
             (rendered ''What is 2+2?'' ''4'' ?w)
               \<lparr>trace := trace (rendered ''What is 2+2?'' ''4'' ?w) @
                  [Smtp (case getenv en ''EMAIL_HOST'' of None \<Rightarrow> ''smtp.gmail.com'' | Some h \<Rightarrow> h)
                     port user pw m,
                   Print (''Correo enviado exitosamente a '' @ ''a@b.com'' @ ''.'')]\<rparr>"
    unfolding dispatched_def
    by (rule send_email_success [OF assms(5-10) f assms(11) m assms(13)])
  have "fst (invoke en empty_state w) = fst (process_outputs en ?s ?w)"
    by (simp add: invoke_world [OF assms(1)] r1 assms(3))
  then show ?thesis
    by (simp add: process_outputs_dispatched [OF k b assms(10)] d rendered_def
        terminal_world_observed read_trace title_of_def)
qed

text \<open>The theorem in the environment and world of scenario A.\<close>

theorem scenario_A_delivered_witness:
  "sent_mails (trace (fst (invoke scenario_env empty_state scenario_world))) =
     [\<lparr>mail_from = ''bot@example.org'', mail_to = ''a@b.com'',
       mail_subject = ''Respuesta a tu pregunta: 'What is 2+2?...'' @ [CHR 0x27],
       mail_text = ''Hola,'' @ CHR 0x0A # CHR 0x0A # ''Adjunto encontrar'' @ CHR 0xE1 #
         ''s la respuesta generada por la IA a tu pregunta.'' @ CHR 0x0A # CHR 0x0A # ''Saludos.'',
       attachment_name = ''respuesta_ia.pdf'',
       attachment_data = \<lparr>doc_title = ''Respuesta a: What is 2+2?...'', doc_body = ''4''\<rparr>\<rparr>]
   \<and> deliveries (trace (fst (invoke scenario_env empty_state scenario_world))) =
       [''Correo enviado exitosamente a a@b.com.'']
   \<and> reports (trace (fst (invoke scenario_env empty_state scenario_world))) = []
   \<and> pdf_calls (trace (fst (invoke scenario_env empty_state scenario_world))) =
       [(''Respuesta a: What is 2+2?...'', ''4'', ''respuesta_ia.pdf'')]"
  using scenario_A_delivered [of scenario_world "[]" scenario_env "''bot@example.org''" "''secret''" 587
      "\<lparr>mail_from = ''bot@example.org'', mail_to = ''a@b.com'',
       mail_subject = ''Respuesta a tu pregunta: 'What is 2+2?...'' @ [CHR 0x27],
       mail_text = ''Hola,'' @ CHR 0x0A # CHR 0x0A # ''Adjunto encontrar'' @ CHR 0xE1 #
         ''s la respuesta generada por la IA a tu pregunta.'' @ CHR 0x0A # CHR 0x0A # ''Saludos.'',
       attachment_name = ''respuesta_ia.pdf'',
       attachment_data = \<lparr>doc_title = ''Respuesta a: What is 2+2?...'', doc_body = ''4''\<rparr>\<rparr>"]
  by (simp add: scenario_env_def scenario_world_def scenario_getenv_def smtp_port_of_def read_trace)

subsection \<open>Removing the rendered file (claim C5)\<close>

text \<open>
  Claim C5 says that the rendered file is removed on every exit path of the dispatch
  call. \<open>os.remove\<close> follows the call in sequence, with no \<open>finally\<close>; the call raises
  when \<open>EMAIL_PORT\<close> is not a number, and then the file stays. In the run below the file
  was rendered, \<open>os.remove\<close> was never called and the file still exists at the end.
\<close>

theorem artifact_left_behind:
  "pdf_calls (trace (fst (invoke bad_port_env empty_state scenario_world))) =
     [(''Respuesta a: What is 2+2?...'', ''4'', ''respuesta_ia.pdf'')]
   \<and> removed_paths (trace (fst (invoke bad_port_env empty_state scenario_world))) = []
   \<and> files (fst (invoke bad_port_env empty_state scenario_world)) ''respuesta_ia.pdf'' =
       Some \<lparr>doc_title = ''Respuesta a: What is 2+2?...'', doc_body = ''4''\<rparr>
   \<and> snd (invoke bad_port_env empty_state scenario_world) =
       Inl (ValueError ''invalid literal for int() with base 10'')"
  by (simp add: model_defs scenario_defs read_trace)

text \<open>
  Claim C5, amended. Whenever the terminal step renders the file and the dispatch call
  returns (\<open>EMAIL_PORT\<close> is absent or converts to an integer), the terminal step is this
  sequence: \<open>create_pdf\<close> writes \<open>respuesta_ia.pdf\<close>; the dispatch call runs on the world
  with that file and returns; up to then nothing was removed and the file exists; then
  \<open>os.remove\<close> is called on the file, and the line about the removal is printed. So
  \<open>os.remove\<close> is called exactly once, after the dispatch call, and afterwards no file of
  that name exists. This holds for every environment, so whether the credentials check,
  the attachment or the SMTP session failed or the mail was sent.
\<close>

theorem artifact_removed_after_dispatch:
  assumes "\<not> truthy (error s)" and "answer s = Some a" and "question s = Some q"
    and "email s = Some em"
    and "doc_build en ''respuesta_ia.pdf'' (''Respuesta a: '' @ take 40 q @ ''...'')
           (replace_newlines a) = None"
    and "smtp_port_of en = Some n"
  shows "\<exists>w1 w2.
      create_pdf en (''Respuesta a: '' @ take 40 q @ ''...'') a ''respuesta_ia.pdf''
        (py_print ''Procesando salidas finales...'' w) = (w1, Some ''respuesta_ia.pdf'')
    \<and> send_email_with_attachment en em
        (''Respuesta a tu pregunta: '' @ CHR 0x27 # take 30 q @ ''...'' @ [CHR 0x27])
        (''Hola,'' @ CHR 0x0A # CHR 0x0A # ''Adjunto encontrar'' @ CHR 0xE1 #
         ''s la respuesta generada por la IA a tu pregunta.'' @ CHR 0x0A # CHR 0x0A # ''Saludos.'')
        ''respuesta_ia.pdf'' w1 = (w2, Inr ())
    \<and> files w1 ''respuesta_ia.pdf'' \<noteq> None
    \<and> files w2 ''respuesta_ia.pdf'' \<noteq> None
    \<and> removed_paths (trace w2) = removed_paths (trace w)
    \<and> fst (process_outputs en s w) =
        w2\<lparr>files := (files w2)(''respuesta_ia.pdf'' := None),
           trace := trace w2 @
             [OsRemove ''respuesta_ia.pdf'',
              Print (''Archivo temporal '' @ CHR 0x27 # ''respuesta_ia.pdf'' @ CHR 0x27 #
                     '' eliminado.'')]\<rparr>
    \<and> removed_paths (trace (fst (process_outputs en s w))) =
        removed_paths (trace w) @ [''respuesta_ia.pdf'']
    \<and> files (fst (process_outputs en s w)) ''respuesta_ia.pdf'' = None"
proof -
  let ?w1 = "rendered q a w"
  let ?w2 = "dispatched en em q a w"
  have built: "doc_build en ''respuesta_ia.pdf'' (title_of q) (replace_newlines a) = None"
    using assms(5) by (simp add: title_of_def)
  have c: "create_pdf en (''Respuesta a: '' @ take 40 q @ ''...'') a ''respuesta_ia.pdf''
             (py_print ''Procesando salidas finales...'' w) = (?w1, Some ''respuesta_ia.pdf'')"
    using assms(5) by (simp add: create_pdf_def io_defs rendered_def title_of_def)
  have "snd (send_email_with_attachment en em (subject_of q) greeting ''respuesta_ia.pdf'' ?w1) =
          Inr ()"
    using assms(6) by (rule send_email_returns)
  then have "send_email_with_attachment en em (subject_of q) greeting ''respuesta_ia.pdf'' ?w1 =
          (?w2, Inr ())"
    by (simp add: prod_eq_iff dispatched_def)
  then have d: "send_email_with_attachment en em
        (''Respuesta a tu pregunta: '' @ CHR 0x27 # take 30 q @ ''...'' @ [CHR 0x27])
        (''Hola,'' @ CHR 0x0A # CHR 0x0A # ''Adjunto encontrar'' @ CHR 0xE1 #
         ''s la respuesta generada por la IA a tu pregunta.'' @ CHR 0x0A # CHR 0x0A # ''Saludos.'')
        ''respuesta_ia.pdf'' ?w1 = (?w2, Inr ())"
    by (simp add: subject_of_def greeting_def)
  have f: "files ?w1 ''respuesta_ia.pdf'' \<noteq> None" "files ?w2 ''respuesta_ia.pdf'' \<noteq> None"
    by (simp_all add: dispatched_files rendered_def)
  have r: "removed_paths (trace ?w2) = removed_paths (trace w)"
    by (simp add: dispatched_quiet rendered_observed)
  note e = process_outputs_dispatched [OF assms(1-4) built assms(6), of w]
  have l: "removed_paths (trace (fst (process_outputs en s w))) =
             removed_paths (trace w) @ [''respuesta_ia.pdf'']"
    "files (fst (process_outputs en s w)) ''respuesta_ia.pdf'' = None"
    by (simp_all add: e r read_trace)
  have e': "fst (process_outputs en s w) =
        ?w2\<lparr>files := (files ?w2)(''respuesta_ia.pdf'' := None),
           trace := trace ?w2 @
             [OsRemove ''respuesta_ia.pdf'',
              Print (''Archivo temporal '' @ CHR 0x27 # ''respuesta_ia.pdf'' @ CHR 0x27 #
                     '' eliminado.'')]\<rparr>"
    by (simp add: e)
  show ?thesis
    by (rule exI [of _ ?w1], rule exI [of _ ?w2]) (intro conjI c d f r e' l)
qed

text \<open>
  The theorem on the state of scenario A, once with an unreachable SMTP server (the
  failure is reported, the file removed) and once with a working one.
\<close>

theorem artifact_removed_after_dispatch_witness:
  "smtp_port_of smtp_down_env = Some 587 \<and> smtp_port_of scenario_env = Some 587
   \<and> reports (trace (fst (process_outputs smtp_down_env answered_state scenario_world))) =
       [''[ERROR] Ocurri'' @ CHR 0xF3 # '' un error al enviar el correo: connection refused'']
   \<and> removed_paths (trace (fst (process_outputs smtp_down_env answered_state scenario_world))) =
       [''respuesta_ia.pdf'']
   \<and> files (fst (process_outputs smtp_down_env answered_state scenario_world)) ''respuesta_ia.pdf'' = None
   \<and> deliveries (trace (fst (process_outputs scenario_env answered_state scenario_world))) =
       [''Correo enviado exitosamente a a@b.com.'']
   \<and> removed_paths (trace (fst (process_outputs scenario_env answered_state scenario_world))) =
       [''respuesta_ia.pdf'']
   \<and> files (fst (process_outputs scenario_env answered_state scenario_world)) ''respuesta_ia.pdf'' = None"
proof -
  have s: "\<not> truthy (error answered_state)" "answer answered_state = Some ''4''"
    "question answered_state = Some ''What is 2+2?''" "email answered_state = Some ''a@b.com''"
    by (simp_all add: answered_state_def)
  have d: "doc_build smtp_down_env ''respuesta_ia.pdf'' (''Respuesta a: '' @ take 40 ''What is 2+2?'' @ ''...'')
             (replace_newlines ''4'') = None"
    "doc_build scenario_env ''respuesta_ia.pdf'' (''Respuesta a: '' @ take 40 ''What is 2+2?'' @ ''...'')
             (replace_newlines ''4'') = None"
    by (simp_all add: smtp_down_env_def scenario_env_def)
  have p: "smtp_port_of smtp_down_env = Some 587" "smtp_port_of scenario_env = Some 587"
    by (simp_all add: smtp_port_of_def smtp_down_env_def scenario_env_def scenario_getenv_def)
  have r: "reports (trace (fst (process_outputs smtp_down_env answered_state scenario_world))) =
       [''[ERROR] Ocurri'' @ CHR 0xF3 # '' un error al enviar el correo: connection refused'']"
    "deliveries (trace (fst (process_outputs scenario_env answered_state scenario_world))) =
       [''Correo enviado exitosamente a a@b.com.'']"
    by (simp_all add: model_defs scenario_defs smtp_down_env_def answered_state_def read_trace)
  have t: "removed_paths (trace scenario_world) = []"
    by (simp add: scenario_world_def read_trace)
  from artifact_removed_after_dispatch [OF s d(1) p(1), of scenario_world]
    artifact_removed_after_dispatch [OF s d(2) p(2), of scenario_world]
  show ?thesis
    using p r t by auto
qed

subsection \<open>The credentials check (claim C6)\<close>

text \<open>
  Claim C6 says that the dispatch fails when any of address, secret, host and port is
  missing. Host and port have defaults: in scenario A neither is configured, and the
  SMTP session is opened with \<open>smtp.gmail.com\<close> and 587 and the mail is sent.
\<close>

theorem dispatch_attempted_without_host_and_port:
  "getenv scenario_env ''EMAIL_HOST'' = None \<and> getenv scenario_env ''EMAIL_PORT'' = None
   \<and> smtp_sessions (trace (fst (send_email_with_attachment scenario_env ''a@b.com'' ''subject''
        ''body'' ''doc.pdf'' attachment_world))) = [(''smtp.gmail.com'', 587)]
   \<and> deliveries (trace (fst (send_email_with_attachment scenario_env ''a@b.com'' ''subject''
        ''body'' ''doc.pdf'' attachment_world))) = [''Correo enviado exitosamente a a@b.com.'']
   \<and> reports (trace (fst (send_email_with_attachment scenario_env ''a@b.com'' ''subject''
        ''body'' ''doc.pdf'' attachment_world))) = []"
  by (simp add: send_email_with_attachment_def scenario_defs attachment_world_def io_defs
      basename_def read_trace)

text \<open>
  Claim C6, amended. Provided \<open>EMAIL_PORT\<close> is absent or converts to an integer:
  if the sender's address or the password is absent or empty, or the address is the
  placeholder \<open>tu_correo@gmail.com\<close>, the operation prints that the credentials are not
  configured and returns, having done nothing else. Otherwise, if the attachment exists
  and can be read, it opens one SMTP session, with the configured host or
  \<open>smtp.gmail.com\<close> and with the configured port or 587.
\<close>

theorem credentials_check:
  assumes "smtp_port_of en = Some n"
  shows "(\<not> truthy (getenv en ''EMAIL_HOST_USER'') \<or> \<not> truthy (getenv en ''EMAIL_HOST_PASSWORD'')
            \<or> getenv en ''EMAIL_HOST_USER'' = Some ''tu_correo@gmail.com''
          \<longrightarrow> send_email_with_attachment en r sub b p w =
                (py_print (CHR 0x0A # ''[ERROR] Credenciales de correo no configuradas en .env.'') w,
                 Inr ()))
         \<and> (truthy (getenv en ''EMAIL_HOST_USER'') \<and> truthy (getenv en ''EMAIL_HOST_PASSWORD'')
            \<and> getenv en ''EMAIL_HOST_USER'' \<noteq> Some ''tu_correo@gmail.com''
            \<and> files w p = Some d \<and> read_error en p = None
          \<longrightarrow> smtp_sessions (trace (fst (send_email_with_attachment en r sub b p w))) =
                smtp_sessions (trace w) @
                [(case getenv en ''EMAIL_HOST'' of None \<Rightarrow> ''smtp.gmail.com'' | Some h \<Rightarrow> h, n)])"
proof (intro conjI impI)
  assume "\<not> truthy (getenv en ''EMAIL_HOST_USER'') \<or> \<not> truthy (getenv en ''EMAIL_HOST_PASSWORD'')
            \<or> getenv en ''EMAIL_HOST_USER'' = Some ''tu_correo@gmail.com''"
  then show "send_email_with_attachment en r sub b p w =
                (py_print (CHR 0x0A # ''[ERROR] Credenciales de correo no configuradas en .env.'') w,
                 Inr ())"
    using assms
    by (cases "getenv en ''EMAIL_HOST_USER''"; cases "getenv en ''EMAIL_HOST_PASSWORD''")
      (auto simp add: send_email_with_attachment_def smtp_port_of_def Let_def)
next
  assume "truthy (getenv en ''EMAIL_HOST_USER'') \<and> truthy (getenv en ''EMAIL_HOST_PASSWORD'')
            \<and> getenv en ''EMAIL_HOST_USER'' \<noteq> Some ''tu_correo@gmail.com''
            \<and> files w p = Some d \<and> read_error en p = None"
  then show "smtp_sessions (trace (fst (send_email_with_attachment en r sub b p w))) =
                smtp_sessions (trace w) @
                [(case getenv en ''EMAIL_HOST'' of None \<Rightarrow> ''smtp.gmail.com'' | Some h \<Rightarrow> h, n)]"
    using assms
    by (cases "getenv en ''EMAIL_HOST_USER''"; cases "getenv en ''EMAIL_HOST_PASSWORD''")
      (auto simp add: send_email_with_attachment_def smtp_port_of_def Let_def io_defs read_trace
        split: option.splits)
qed

text \<open>
  The theorem with nothing configured (first part) and in scenario A with an existing
  attachment (second part).
\<close>

theorem credentials_check_witness:
  "smtp_port_of unconfigured_env = Some 587 \<and> smtp_port_of scenario_env = Some 587
   \<and> \<not> truthy (getenv unconfigured_env ''EMAIL_HOST_USER'')
   \<and> send_email_with_attachment unconfigured_env ''a@b.com'' ''subject'' ''body'' ''doc.pdf''
        attachment_world =
        (py_print (CHR 0x0A # ''[ERROR] Credenciales de correo no configuradas en .env.'')
           attachment_world, Inr ())
   \<and> truthy (getenv scenario_env ''EMAIL_HOST_USER'')
   \<and> truthy (getenv scenario_env ''EMAIL_HOST_PASSWORD'')
   \<and> getenv scenario_env ''EMAIL_HOST_USER'' \<noteq> Some ''tu_correo@gmail.com''
   \<and> files attachment_world ''doc.pdf'' = Some \<lparr>doc_title = ''t'', doc_body = ''b''\<rparr>
   \<and> read_error scenario_env ''doc.pdf'' = None
   \<and> smtp_sessions (trace (fst (send_email_with_attachment scenario_env ''a@b.com'' ''subject''
        ''body'' ''doc.pdf'' attachment_world))) = [(''smtp.gmail.com'', 587)]"
proof -
  have p: "smtp_port_of unconfigured_env = Some 587" "smtp_port_of scenario_env = Some 587"
    by (simp_all add: smtp_port_of_def unconfigured_env_def scenario_env_def scenario_getenv_def)
  show ?thesis
    using p
      credentials_check [OF p(1), of "''a@b.com''" "''subject''" "''body''" "''doc.pdf''"
        attachment_world "\<lparr>doc_title = ''t'', doc_body = ''b''\<rparr>"]
      credentials_check [OF p(2), of "''a@b.com''" "''subject''" "''body''" "''doc.pdf''"
        attachment_world "\<lparr>doc_title = ''t'', doc_body = ''b''\<rparr>"]
    by (simp add: unconfigured_env_def scenario_env_def scenario_getenv_def attachment_world_def
        read_trace)
qed

subsection \<open>The rendering call (claim C7)\<close>

text \<open>
  Claim C7. Whenever the terminal step starts on a state without an error that holds a
  question, an answer and an address (as in every run that ends in a delivery), it calls
  \<open>create_pdf\<close> exactly once, with the title \<open>Respuesta a: \<close> followed by the first 40
  characters of the question and three dots, with the answer itself as the body, and
  with the file name \<open>respuesta_ia.pdf\<close>. For a question of 100 characters the title holds
  only 40 of them: it is 13 + 40 + 3 = 56 characters long.
\<close>

theorem render_call_arguments:
  assumes "\<not> truthy (error s)" and "answer s = Some a" and "question s = Some q"
    and "email s = Some em"
  shows "pdf_calls (trace (fst (process_outputs en s w))) =
           pdf_calls (trace w) @ [(''Respuesta a: '' @ take 40 q @ ''...'', a, ''respuesta_ia.pdf'')]
         \<and> (length q = 100 \<longrightarrow>
              length (take 40 q) = 40 \<and> length (''Respuesta a: '' @ take 40 q @ ''...'') = 56)"
proof -
  have calls: "pdf_calls (trace (fst (process_outputs en s w))) =
                 pdf_calls (trace w) @ [(title_of q, a, ''respuesta_ia.pdf'')]"
  proof (cases "doc_build en ''respuesta_ia.pdf'' (title_of q) (replace_newlines a)")
    case (Some e)
    show ?thesis
      by (simp add: process_outputs_not_rendered [OF assms Some] read_trace)
  next
    case None
    show ?thesis
    proof (cases "smtp_port_of en")
      case bad: None
      show ?thesis
        by (simp add: process_outputs_bad_port [OF assms None bad] rendered_observed)
    next
      case (Some n)
      show ?thesis
        by (simp add: process_outputs_dispatched [OF assms None Some] dispatched_quiet
            rendered_observed read_trace)
    qed
  qed
  then show ?thesis
    by (simp add: title_of_def)
qed

text \<open>
  The theorem at a state whose question is 100 times the letter x, in the environment
  of scenario A: the title holds 40 of them.
\<close>

theorem render_call_arguments_witness:
  "\<not> truthy (error long_question_state) \<and> answer long_question_state = Some ''4''
   \<and> question long_question_state = Some (replicate 100 (CHR ''x''))
   \<and> email long_question_state = Some ''a@b.com''
   \<and> length (replicate 100 (CHR ''x'')) = 100
   \<and> pdf_calls (trace (fst (process_outputs scenario_env long_question_state scenario_world))) =
       [(''Respuesta a: '' @ replicate 40 (CHR ''x'') @ ''...'', ''4'', ''respuesta_ia.pdf'')]
   \<and> length (''Respuesta a: '' @ take 40 (replicate 100 (CHR ''x'')) @ ''...'') = 56"
proof -
  have h: "\<not> truthy (error long_question_state)" "answer long_question_state = Some ''4''"
    "question long_question_state = Some (replicate 100 (CHR ''x''))"
    "email long_question_state = Some ''a@b.com''"
    by (simp_all add: long_question_state_def answered_state_def)
  show ?thesis
    using h render_call_arguments [OF h, of scenario_env scenario_world]
    by (simp add: scenario_world_def read_trace)
qed

subsection \<open>The answer does not depend on the intention (claim C8)\<close>

text \<open>
  Claim C8. \<open>generate_answer\<close> reads only the question: on two states with the same
  question, whatever their intention, it sends the same request to the model and, the
  model answering the same, leaves the same trace and returns the same update.
\<close>

theorem generate_answer_ignores_intention:
  "question s = question s' \<Longrightarrow> generate_answer en s w = generate_answer en s' w"
  by (simp add: generate_answer_def)

text \<open>Two states that differ in the intention only.\<close>

theorem generate_answer_ignores_intention_witness:
  "question answered_state = question (answered_state\<lparr>intention := Some ''Something else''\<rparr>)
   \<and> intention answered_state \<noteq> intention (answered_state\<lparr>intention := Some ''Something else''\<rparr>)
   \<and> generate_answer scenario_env answered_state scenario_world =
       generate_answer scenario_env (answered_state\<lparr>intention := Some ''Something else''\<rparr>) scenario_world"
  using generate_answer_ignores_intention
          [of answered_state "answered_state\<lparr>intention := Some ''Something else''\<rparr>"
              scenario_env scenario_world]
  by (simp add: answered_state_def)

subsection \<open>What the terminal step sees of a dispatch (claim C9)\<close>

text \<open>
  Claim C9 says that the mail-sending operation never raises. The conversion of
  \<open>EMAIL_PORT\<close> is outside every \<open>try\<close>: with the value \<open>abc\<close> the operation raises
  \<open>ValueError\<close> before it prints anything.
\<close>

theorem bad_port_escapes_dispatch:
  "snd (send_email_with_attachment bad_port_env ''a@b.com'' ''subject'' ''body'' ''doc.pdf''
          attachment_world) = Inl (ValueError ''invalid literal for int() with base 10'')
   \<and> trace (fst (send_email_with_attachment bad_port_env ''a@b.com'' ''subject'' ''body'' ''doc.pdf''
          attachment_world)) = []"
  by (simp add: send_email_with_attachment_def scenario_defs attachment_world_def)

text \<open>
  Claim C9, amended. Provided \<open>EMAIL_PORT\<close> is absent or converts to an integer, the
  mail-sending operation returns \<open>None\<close> and does not raise, whatever the credentials,
  the attachment and the SMTP session do. The terminal step cannot tell these outcomes
  apart: in two such environments with the same renderer it ends in the same way, leaves
  the same files and makes the same calls of \<open>os.remove\<close>.
\<close>

theorem dispatch_failure_unobserved:
  assumes "smtp_port_of en = Some n" and "smtp_port_of en' = Some n'"
    and "doc_build en' = doc_build en"
  shows "snd (send_email_with_attachment en r sub b p w0) = Inr ()
         \<and> snd (process_outputs en s w) = snd (process_outputs en' s w)
         \<and> files (fst (process_outputs en s w)) = files (fst (process_outputs en' s w))
         \<and> removed_paths (trace (fst (process_outputs en s w))) =
             removed_paths (trace (fst (process_outputs en' s w)))"
proof -
  have returns: "snd (send_email_with_attachment en r sub b p w0) = Inr ()"
    using assms(1) by (rule send_email_returns)
  have same: "snd (process_outputs en s w) = snd (process_outputs en' s w)
         \<and> files (fst (process_outputs en s w)) = files (fst (process_outputs en' s w))
         \<and> removed_paths (trace (fst (process_outputs en s w))) =
             removed_paths (trace (fst (process_outputs en' s w)))"
  proof (cases "truthy (error s)")
    case True
    then obtain err where "error s = Some err" and "err \<noteq> []"
      by (cases "error s") auto
    then show ?thesis
      by (simp add: process_outputs_interrupted)
  next
    case no_error: False
    show ?thesis
    proof (cases "answer s = None \<or> question s = None \<or> email s = None")
      case True
      show ?thesis
        by (simp add: process_outputs_missing_key [OF no_error True, of en w en'])
    next
      case False
      then obtain a q em where keys: "answer s = Some a" "question s = Some q" "email s = Some em"
        by auto
      show ?thesis
      proof (cases "doc_build en ''respuesta_ia.pdf'' (title_of q) (replace_newlines a)")
        case (Some e)
        then have "doc_build en' ''respuesta_ia.pdf'' (title_of q) (replace_newlines a) = Some e"
          by (simp add: assms(3))
        then show ?thesis
          by (simp add: process_outputs_not_rendered [OF no_error keys] Some)
      next
        case None
        then have other: "doc_build en' ''respuesta_ia.pdf'' (title_of q) (replace_newlines a) = None"
          by (simp add: assms(3))
        show ?thesis
          by (simp add: process_outputs_dispatched [OF no_error keys None assms(1)]
              process_outputs_dispatched [OF no_error keys other assms(2)]
              dispatched_files dispatched_quiet read_trace)
      qed
    qed
  qed
  show ?thesis
    using returns same by simp
qed

text \<open>The theorem for scenario A with a working and with an unreachable SMTP server.\<close>

theorem dispatch_failure_unobserved_witness:
  "smtp_port_of scenario_env = Some 587 \<and> smtp_port_of smtp_down_env = Some 587
   \<and> doc_build smtp_down_env = doc_build scenario_env
   \<and> deliveries (trace (fst (process_outputs scenario_env answered_state scenario_world))) =
       [''Correo enviado exitosamente a a@b.com.'']
   \<and> deliveries (trace (fst (process_outputs smtp_down_env answered_state scenario_world))) = []
   \<and> snd (send_email_with_attachment scenario_env ''a@b.com'' ''subject'' ''body'' ''doc.pdf''
            attachment_world) = Inr ()
   \<and> snd (process_outputs scenario_env answered_state scenario_world) =
       snd (process_outputs smtp_down_env answered_state scenario_world)
   \<and> files (fst (process_outputs scenario_env answered_state scenario_world)) =
       files (fst (process_outputs smtp_down_env answered_state scenario_world))
   \<and> removed_paths (trace (fst (process_outputs scenario_env answered_state scenario_world))) =
       removed_paths (trace (fst (process_outputs smtp_down_env answered_state scenario_world)))"
proof -
  have p: "smtp_port_of scenario_env = Some 587" "smtp_port_of smtp_down_env = Some 587"
    by (simp_all add: smtp_port_of_def smtp_down_env_def scenario_env_def scenario_getenv_def)
  have d: "doc_build smtp_down_env = doc_build scenario_env"
    by (simp add: smtp_down_env_def)
  have r: "deliveries (trace (fst (process_outputs scenario_env answered_state scenario_world))) =
       [''Correo enviado exitosamente a a@b.com.'']"
    "deliveries (trace (fst (process_outputs smtp_down_env answered_state scenario_world))) = []"
    by (simp_all add: model_defs scenario_defs smtp_down_env_def answered_state_def read_trace)
  show ?thesis
    using p d r
      dispatch_failure_unobserved [OF p d, of "''a@b.com''" "''subject''" "''body''" "''doc.pdf''"
        attachment_world answered_state scenario_world]
    by simp
qed

subsection \<open>The token check at load time (claim C10)\<close>

text \<open>
  Claim C10. Without \<open>GITHUB_TOKEN\<close> the module raises \<open>ValueError\<close> while it is loaded:
  the world is untouched, so no node has started, no state exists and nothing was
  written to the error field.
\<close>

theorem missing_token_raises_at_load:
  "getenv en ''GITHUB_TOKEN'' = None \<Longrightarrow>
   module_main en w = (w, Inl (ValueError ''GITHUB_TOKEN no encontrado en el archivo .env''))"
  by (simp add: module_main_def)

text \<open>The theorem in an environment where nothing is configured.\<close>

theorem missing_token_raises_at_load_witness:
  "getenv unconfigured_env ''GITHUB_TOKEN'' = None \<and>
   module_main unconfigured_env scenario_world =
     (scenario_world, Inl (ValueError ''GITHUB_TOKEN no encontrado en el archivo .env''))"
  using missing_token_raises_at_load [of unconfigured_env scenario_world]
  by (simp add: unconfigured_env_def)

end
